theory Spec2Isabelle
  imports
    Complex_Main
    "HOL-Library.Sublist"
    "HOL-Library.Monad_Syntax"
    "HOL-Library.Multiset"
    "HOL-Library.Product_Lexorder"
begin

section \<open>Strings and numbers of the host language\<close>

text \<open>
  The program is TypeScript. A string of the language is a sequence of 16-bit code
  units; the strings of the model are lists of \<^typ>\<open>char\<close>, read as the code units below
  256 (ASCII and Latin-1). How the language folds a string to lower case is no part of
  the repository: \<open>toLowerCase\<close> is a function of the platform, a parameter of the model
  (see below), and no theorem depends on what it computes.
\<close>

text \<open>\<open>s.includes(p)\<close>: does \<open>p\<close> occur in \<open>s\<close> at some position?\<close>

fun includes_str :: "string \<Rightarrow> string \<Rightarrow> bool" where
  "includes_str [] p = (p = [])"
| "includes_str (c # cs) p = (take (length p) (c # cs) = p \<or> includes_str cs p)"

text \<open>
  The numbers of the language are IEEE 754 doubles. Every finite double is a rational
  number, and the numbers of the model are rationals. The operators \<open>/\<close>, \<open>*\<close> and \<open>+\<close>
  return the exact result rounded to the nearest double, a tie going to the even
  significand: \<open>to_double\<close> rounds to 53 significant bits. (Overflow and the subnormal
  range are not modelled; the scorer's numbers lie between \<open>2\<^sup>-\<^sup>3\<^sup>2\<close> and 120.) Where
  \<open>NaN\<close> can arise it is written out as \<open>None\<close>.
\<close>

fun bit_length :: "nat \<Rightarrow> nat" where
  "bit_length n = (if n = 0 then 0 else Suc (bit_length (n div 2)))"

declare bit_length.simps [simp del]

text \<open>For \<open>a > 0\<close>, the exponent \<open>e\<close> with \<open>2\<^sup>e \<le> a < 2\<^sup>e\<^sup>+\<^sup>1\<close>.\<close>

definition exponent2 :: "rat \<Rightarrow> int" where
  "exponent2 a =
     (if 1 \<le> a then int (bit_length (nat \<lfloor>a\<rfloor>)) - 1
      else - int (bit_length (nat (\<lceil>1 / a\<rceil> - 1))))"

definition pow2 :: "int \<Rightarrow> rat" where
  "pow2 e = (if 0 \<le> e then 2 ^ nat e else 1 / 2 ^ nat (- e))"

definition round_half_even :: "rat \<Rightarrow> int" where
  "round_half_even q =
     (let f = \<lfloor>q\<rfloor>; r = q - of_int f
      in if r < 1 / 2 then f
         else if 1 / 2 < r then f + 1
         else if even f then f else f + 1)"

definition to_double :: "rat \<Rightarrow> rat" where
  "to_double x =
     (if x = 0 then 0
      else (let a = \<bar>x\<bar>; u = pow2 (exponent2 a - 52)
            in sgn x * of_int (round_half_even (a / u)) * u))"

definition js_div :: "rat \<Rightarrow> rat \<Rightarrow> rat" where
  "js_div a b = to_double (a / b)"

definition js_mul :: "rat \<Rightarrow> rat \<Rightarrow> rat" where
  "js_mul a b = to_double (a * b)"

definition js_add :: "rat \<Rightarrow> rat \<Rightarrow> rat" where
  "js_add a b = to_double (a + b)"

text \<open>\<open>Math.round\<close>: the nearest integer, a tie going up.\<close>

definition Math_round :: "rat \<Rightarrow> int" where
  "Math_round x = \<lfloor>x + 1 / 2\<rfloor>"

section \<open>The data model (types.ts, config.ts)\<close>

datatype JobSource = remoteok | web3career

text \<open>
  A \<open>Date\<close> holds a time value: a number of milliseconds, or \<open>NaN\<close> for an invalid
  date (\<open>new Date(s)\<close> of a string that does not parse). \<open>None\<close> is the invalid date.
\<close>

type_synonym Date = "int option"

record Salary =
  min' :: rat
  max' :: rat
  currency :: string
  raw :: string

record Job =
  id' :: string
  title :: string
  company :: string
  url :: string
  salary :: Salary
  location :: string
  remote :: bool
  skills :: "string list"
  postedAt :: Date
  source :: JobSource

record MatchResult =
  job :: Job
  score :: int
  matchedSkills :: "string list"
  explanation :: "string list"

record Preferences =
  skills_pref :: "string list"
  salaryMinimum :: rat
  location_pref :: string

record Config =
  preferences :: Preferences
  hardNos :: "string list"

section \<open>What the platform provides\<close>

text \<open>
  The program calls functions of the language and its libraries that are no part of the
  repository. They are parameters of the model, so every theorem below holds whatever
  they compute: the folding of a string to lower case, the SHA-256 digest in
  hexadecimal, the URL check of the schema library, the parsing of a date string
  (\<open>None\<close>: invalid date), the conversion of a number to a string in a template literal,
  \<open>Number(s)\<close> of a string (\<open>None\<close>: \<open>NaN\<close>), and the order in which \<open>sort\<close> leaves an
  array when the language does not fix it (see \<open>Array_sort\<close>).
\<close>

record platform =
  toLowerCase :: "string \<Rightarrow> string"
  sha256_hex :: "string \<Rightarrow> string"
  valid_url :: "string \<Rightarrow> bool"
  Date_parse :: "string \<Rightarrow> int option"
  Number_toString :: "rat \<Rightarrow> string"
  Number_ofString :: "string \<Rightarrow> rat option"
  sort_impl :: "(MatchResult \<Rightarrow> MatchResult \<Rightarrow> int option) \<Rightarrow> MatchResult list \<Rightarrow> MatchResult list"

section \<open>The matcher (matcher.ts)\<close>

subsection \<open>filterHardNos\<close>

text \<open>
  The loop over \<open>jobs\<close>, with its two variables \<open>passed\<close> and \<open>excluded\<close>; the log
  lines are left out.
\<close>

fun filterHardNos_loop ::
  "platform \<Rightarrow> string list \<Rightarrow> Job list \<Rightarrow> Job list \<Rightarrow> nat \<Rightarrow> Job list \<times> nat" where
  "filterHardNos_loop P patterns [] passed excluded = (passed, excluded)"
| "filterHardNos_loop P patterns (j # jobs) passed excluded =
     (let searchable = map (toLowerCase P) (title j # company j # skills j);
          matched = filter (\<lambda>pattern. list_ex (\<lambda>field. includes_str field pattern) searchable)
                      patterns
      in if length matched > 0
         then filterHardNos_loop P patterns jobs passed (excluded + 1)
         else filterHardNos_loop P patterns jobs (passed @ [j]) excluded)"

definition filterHardNos :: "platform \<Rightarrow> Job list \<Rightarrow> string list \<Rightarrow> Job list" where
  "filterHardNos P jobs hardNos' =
     (if length hardNos' = 0 then jobs
      else fst (filterHardNos_loop P (map (toLowerCase P) hardNos') jobs [] 0))"

subsection \<open>scoreJob\<close>

text \<open>
  The skill score divides by the number of user skills. With no user skill the quotient
  is \<open>0 / 0 = NaN\<close>, and so is the score: \<open>None\<close>. The quotient, the product and the two
  sums are doubles.
\<close>

definition scoreJob :: "platform \<Rightarrow> Job \<Rightarrow> Config \<Rightarrow> int option \<times> string list" where
  "scoreJob P j config =
     (let userSkills = map (toLowerCase P) (skills_pref (preferences config));
          jobSkills = map (toLowerCase P) (skills j);
          matched = filter (\<lambda>skill. list_ex (\<lambda>js. js = skill) jobSkills) userSkills;
          skillScore =
            (if length userSkills = 0 then None
             else Some (js_mul (js_div (of_nat (length matched)) (of_nat (length userSkills))) 100));
          salaryBonus = (if min' (salary j) \<ge> salaryMinimum (preferences config) then 10 else 0);
          userLocation = toLowerCase P (location_pref (preferences config));
          jobLocation = toLowerCase P (location j);
          locationBonus =
            (if includes_str jobLocation userLocation \<or> includes_str userLocation ''remote''
             then 10 else 0)
      in (map_option
            (\<lambda>s. min 100 (Math_round (js_add (js_add s salaryBonus) locationBonus))) skillScore,
          matched))"

subsection \<open>The ranking step of matchJobs\<close>

definition TOP_MATCHES :: nat where
  "TOP_MATCHES = 10"

text \<open>
  The comparison function handed to \<open>sort\<close>:
  \<open>b.score - a.score || b.job.postedAt.getTime() - a.job.postedAt.getTime()\<close>.
  The scores of the results are integers (\<open>scoreJob\<close> yields \<open>NaN\<close> only for a
  configuration without skills, which \<open>ConfigSchema\<close> rejects), so their difference is a
  number; when it is \<open>0\<close> the value is the difference of the two time values, which is
  \<open>NaN\<close> (\<open>None\<close>) as soon as one of the dates is invalid.
\<close>

definition compareMatches :: "MatchResult \<Rightarrow> MatchResult \<Rightarrow> int option" where
  "compareMatches a b =
     (let d = score b - score a
      in if d \<noteq> 0 then Some d
         else (case (postedAt (job b), postedAt (job a)) of
                 (Some tb, Some ta) \<Rightarrow> Some (tb - ta)
               | _ \<Rightarrow> None))"

text \<open>
  \<open>Array.prototype.sort\<close> is a built-in of the language. It reads a comparison result
  \<open>NaN\<close> as \<open>+0\<close>. The language fixes its result when the comparison function is a
  consistent comparator for the elements of the array: every comparison is a number, not
  \<open>NaN\<close>; being equal (a result \<open>0\<close>) is reflexive, symmetric and transitive; coming
  before (a result below \<open>0\<close>) and coming after (above \<open>0\<close>) are transitive.
\<close>

definition sortCompare :: "('a \<Rightarrow> 'a \<Rightarrow> int option) \<Rightarrow> 'a \<Rightarrow> 'a \<Rightarrow> int" where
  "sortCompare comparefn x y = (case comparefn x y of None \<Rightarrow> 0 | Some v \<Rightarrow> v)"

definition consistent_comparator :: "('a \<Rightarrow> 'a \<Rightarrow> int option) \<Rightarrow> 'a list \<Rightarrow> bool" where
  "consistent_comparator comparefn xs =
     ((\<forall>a \<in> set xs. \<forall>b \<in> set xs. comparefn a b \<noteq> None)
      \<and> (\<forall>a \<in> set xs. sortCompare comparefn a a = 0)
      \<and> (\<forall>a \<in> set xs. \<forall>b \<in> set xs.
            sortCompare comparefn a b = 0 \<longrightarrow> sortCompare comparefn b a = 0)
      \<and> (\<forall>a \<in> set xs. \<forall>b \<in> set xs. \<forall>c \<in> set xs.
            sortCompare comparefn a b = 0 \<and> sortCompare comparefn b c = 0
              \<longrightarrow> sortCompare comparefn a c = 0)
      \<and> (\<forall>a \<in> set xs. \<forall>b \<in> set xs. \<forall>c \<in> set xs.
            sortCompare comparefn a b < 0 \<and> sortCompare comparefn b c < 0
              \<longrightarrow> sortCompare comparefn a c < 0)
      \<and> (\<forall>a \<in> set xs. \<forall>b \<in> set xs. \<forall>c \<in> set xs.
            sortCompare comparefn a b > 0 \<and> sortCompare comparefn b c > 0
              \<longrightarrow> sortCompare comparefn a c > 0))"

text \<open>
  With a consistent comparator the result is the stable sort of the array, which is
  unique; the insertion sort computes it: an element is placed before the first element
  that the comparison does not put before it.
\<close>

fun sort_insert :: "('a \<Rightarrow> 'a \<Rightarrow> int option) \<Rightarrow> 'a \<Rightarrow> 'a list \<Rightarrow> 'a list" where
  "sort_insert comparefn x [] = [x]"
| "sort_insert comparefn x (y # ys) =
     (if sortCompare comparefn x y \<le> 0 then x # y # ys
      else y # sort_insert comparefn x ys)"

definition stable_sort :: "('a \<Rightarrow> 'a \<Rightarrow> int option) \<Rightarrow> 'a list \<Rightarrow> 'a list" where
  "stable_sort comparefn xs = foldr (sort_insert comparefn) xs []"

text \<open>
  Otherwise the order is left to the implementation, and engines differ: it is the
  platform's \<open>sort_impl\<close>. Whatever the engine, the result is a rearrangement of the
  array (a \<open>sort_impl\<close> that were to return anything else is read as leaving the array
  as it is).
\<close>

definition Array_sort ::
  "platform \<Rightarrow> (MatchResult \<Rightarrow> MatchResult \<Rightarrow> int option) \<Rightarrow> MatchResult list \<Rightarrow> MatchResult list" where
  "Array_sort P comparefn xs =
     (if consistent_comparator comparefn xs then stable_sort comparefn xs
      else (let ys = sort_impl P comparefn xs
            in if mset ys = mset xs then ys else xs))"

text \<open>Step 3 of \<open>matchJobs\<close>: sort, then \<open>slice(0, TOP_MATCHES)\<close>.\<close>

definition matchJobs_rank :: "platform \<Rightarrow> MatchResult list \<Rightarrow> MatchResult list" where
  "matchJobs_rank P scored = take TOP_MATCHES (Array_sort P compareMatches scored)"

section \<open>The fetcher\<close>

subsection \<open>JSON values and the schema library\<close>

datatype json =
  JNull | JBool bool | JNum rat | JStr string | JArr "json list" | JObj "(string \<times> json) list"

text \<open>
  Reading a property of a parsed object: \<open>None\<close> when the key is absent (the value
  \<open>undefined\<close>). Of a key written twice, \<open>JSON.parse\<close> keeps the last.
\<close>

definition property :: "(string \<times> json) list \<Rightarrow> string \<Rightarrow> json option" where
  "property obj k = map_of (rev obj) k"

text \<open>
  The checks of the schema library (zod) that the two schemas use, each on the value of
  a property: \<open>None\<close> is a failed check.
\<close>

definition z_string :: "json option \<Rightarrow> string option" where
  "z_string v = (case v of Some (JStr s) \<Rightarrow> Some s | _ \<Rightarrow> None)"

definition z_number :: "json option \<Rightarrow> rat option" where
  "z_number v = (case v of Some (JNum n) \<Rightarrow> Some n | _ \<Rightarrow> None)"

definition z_boolean :: "json option \<Rightarrow> bool option" where
  "z_boolean v = (case v of Some (JBool b) \<Rightarrow> Some b | _ \<Rightarrow> None)"

definition z_min :: "nat \<Rightarrow> (json option \<Rightarrow> string option) \<Rightarrow> json option \<Rightarrow> string option" where
  "z_min n t v = (case t v of Some s \<Rightarrow> if n \<le> length s then Some s else None | None \<Rightarrow> None)"

definition z_url :: "platform \<Rightarrow> json option \<Rightarrow> string option" where
  "z_url P v = (case z_string v of Some s \<Rightarrow> if valid_url P s then Some s else None | None \<Rightarrow> None)"

fun strings_of :: "json list \<Rightarrow> string list option" where
  "strings_of [] = Some []"
| "strings_of (JStr s # vs) = map_option ((#) s) (strings_of vs)"
| "strings_of (_ # vs) = None"

definition z_array_string :: "json option \<Rightarrow> string list option" where
  "z_array_string v = (case v of Some (JArr vs) \<Rightarrow> strings_of vs | _ \<Rightarrow> None)"

definition z_union ::
  "(json option \<Rightarrow> 'a option) \<Rightarrow> (json option \<Rightarrow> 'b option) \<Rightarrow> json option \<Rightarrow> ('a + 'b) option" where
  "z_union t u v =
     (case t v of Some a \<Rightarrow> Some (Inl a)
      | None \<Rightarrow> (case u v of Some b \<Rightarrow> Some (Inr b) | None \<Rightarrow> None))"

text \<open>\<open>.optional().default(d)\<close>: an absent property takes the default.\<close>

definition z_default :: "(json option \<Rightarrow> 'a option) \<Rightarrow> 'a \<Rightarrow> json option \<Rightarrow> 'a option" where
  "z_default t d v = (case v of None \<Rightarrow> Some d | Some _ \<Rightarrow> t v)"

text \<open>\<open>.nullable().optional()\<close>: an absent property and \<open>null\<close> pass as they are.\<close>

datatype 'a nullish = Undefined | Null | Value 'a

definition z_nullish :: "(json option \<Rightarrow> 'a option) \<Rightarrow> json option \<Rightarrow> 'a nullish option" where
  "z_nullish t v =
     (case v of None \<Rightarrow> Some Undefined
      | Some JNull \<Rightarrow> Some Null
      | Some _ \<Rightarrow> map_option Value (t v))"

subsection \<open>RemoteOK\<close>

definition MAX_RETRIES :: nat where
  "MAX_RETRIES = 2"

definition RETRY_DELAY_MS :: nat where
  "RETRY_DELAY_MS = 3000"

record RemoteOKJob =
  rok_id :: string
  rok_position :: string
  rok_company :: string
  rok_url :: string
  rok_salary_min :: rat
  rok_salary_max :: rat
  rok_location :: string
  rok_tags :: "string list"
  rok_date :: string

text \<open>\<open>RemoteOKJobSchema.safeParse(item)\<close>; \<open>None\<close> is a failed parse.\<close>

definition RemoteOKJobSchema :: "platform \<Rightarrow> json \<Rightarrow> RemoteOKJob option" where
  "RemoteOKJobSchema P item =
     (case item of
        JObj obj \<Rightarrow>
          do {
            i \<leftarrow> z_string (property obj ''id'');
            position \<leftarrow> z_min 1 z_string (property obj ''position'');
            comp \<leftarrow> z_min 1 z_string (property obj ''company'');
            u \<leftarrow> z_url P (property obj ''url'');
            salary_min \<leftarrow> z_default z_number 0 (property obj ''salary_min'');
            salary_max \<leftarrow> z_default z_number 0 (property obj ''salary_max'');
            loc \<leftarrow> z_default z_string [] (property obj ''location'');
            tags \<leftarrow> z_default z_array_string [] (property obj ''tags'');
            d \<leftarrow> z_string (property obj ''date'');
            Some \<lparr>rok_id = i, rok_position = position, rok_company = comp, rok_url = u,
                  rok_salary_min = salary_min, rok_salary_max = salary_max,
                  rok_location = loc, rok_tags = tags, rok_date = d\<rparr>
          }
      | _ \<Rightarrow> None)"

definition generateJobId :: "platform \<Rightarrow> string \<Rightarrow> string \<Rightarrow> string" where
  "generateJobId P t c = sha256_hex P (toLowerCase P (t @ c))"

text \<open>\<open>a || b\<close> on strings: the empty string is falsy.\<close>

definition str_or :: "string \<Rightarrow> string \<Rightarrow> string" where
  "str_or a b = (if a = [] then b else a)"

definition normalizeRemoteOKJob :: "platform \<Rightarrow> RemoteOKJob \<Rightarrow> Job" where
  "normalizeRemoteOKJob P r =
     (let hasSalary = rok_salary_min r > 0 \<or> rok_salary_max r > 0
      in \<lparr>id' = generateJobId P (rok_position r) (rok_company r),
          title = rok_position r,
          company = rok_company r,
          url = rok_url r,
          salary = \<lparr>min' = rok_salary_min r,
                    max' = rok_salary_max r,
                    currency = (if hasSalary then ''USD'' else []),
                    raw = (if hasSalary
                           then ''$'' @ Number_toString P (rok_salary_min r) @ ''-$''
                                @ Number_toString P (rok_salary_max r)
                           else [])\<rparr>,
          location = str_or (rok_location r) ''Remote'',
          remote = True,
          skills = map (toLowerCase P) (rok_tags r),
          postedAt = Date_parse P (rok_date r),
          source = remoteok\<rparr>)"

subsection \<open>fetchWithRetry\<close>

text \<open>
  A call of \<open>fetch\<close> either resolves with a response or rejects (\<open>Inl\<close>: a transport
  error, or the timeout of \<open>AbortSignal.timeout\<close>). Reading the body of a response with
  \<open>json()\<close> either yields a value or throws.
\<close>

record Response =
  ok :: bool
  status :: nat
  json_body :: "string + json"

text \<open>
  The world of one adapter run is the outcome of each call of \<open>fetch\<close>, by the number of
  the attempt. The loop returns the response (if any), the number of calls of \<open>fetch\<close> it
  made, and the time it slept between attempts.
\<close>

function fetchWithRetry_loop ::
  "(nat \<Rightarrow> string + Response) \<Rightarrow> nat \<Rightarrow> nat \<Rightarrow> Response option \<times> nat \<times> nat" where
  "fetchWithRetry_loop fetch attempt slept =
     (if attempt \<le> MAX_RETRIES
      then (case fetch attempt of
              Inr response \<Rightarrow>
                if ok response then (Some response, attempt + 1, slept)
                else fetchWithRetry_loop fetch (attempt + 1)
                       (if attempt < MAX_RETRIES then slept + RETRY_DELAY_MS else slept)
            | Inl err \<Rightarrow>
                fetchWithRetry_loop fetch (attempt + 1)
                  (if attempt < MAX_RETRIES then slept + RETRY_DELAY_MS else slept))
      else (None, attempt, slept))"
  by pat_completeness auto
termination
  by (relation "measure (\<lambda>(fetch, attempt, slept). MAX_RETRIES + 1 - attempt)") auto

declare fetchWithRetry_loop.simps [simp del]

definition fetchWithRetry :: "(nat \<Rightarrow> string + Response) \<Rightarrow> Response option" where
  "fetchWithRetry fetch = fst (fetchWithRetry_loop fetch 0 0)"

definition fetchWithRetry_attempts :: "(nat \<Rightarrow> string + Response) \<Rightarrow> nat" where
  "fetchWithRetry_attempts fetch = fst (snd (fetchWithRetry_loop fetch 0 0))"

subsection \<open>fetchFromRemoteOK\<close>

fun RemoteOK_items ::
  "platform \<Rightarrow> json list \<Rightarrow> Job list \<Rightarrow> RemoteOKJob list \<Rightarrow> Job list \<times> RemoteOKJob list" where
  "RemoteOK_items P [] jobs rawParsed = (jobs, rawParsed)"
| "RemoteOK_items P (item # rest) jobs rawParsed =
     (case RemoteOKJobSchema P item of
        Some d \<Rightarrow> RemoteOK_items P rest (jobs @ [normalizeRemoteOKJob P d]) (rawParsed @ [d])
      | None \<Rightarrow> RemoteOK_items P rest jobs rawParsed)"

text \<open>
  The body of the \<open>try\<close> block; \<open>Inl\<close> is an exception thrown inside it. \<open>saveRawData\<close>
  writes a file and may throw (\<open>Some\<close> of the message).
\<close>

definition RemoteOK_try ::
  "platform \<Rightarrow> Response \<Rightarrow> (RemoteOKJob list \<Rightarrow> string option) \<Rightarrow> string + Job list" where
  "RemoteOK_try P response saveRawData =
     (case json_body response of
        Inl err \<Rightarrow> Inl err
      | Inr data \<Rightarrow>
          (case data of
             JArr items \<Rightarrow>
               (let rawJobs = drop 1 items;
                    (jobs, rawParsed) = RemoteOK_items P rawJobs [] []
                in case saveRawData rawParsed of
                     Some err \<Rightarrow> Inl err
                   | None \<Rightarrow> Inr jobs)
           | _ \<Rightarrow> Inr []))"

text \<open>
  The adapter: \<open>Inr\<close> is the job list it resolves with, \<open>Inl\<close> would be an error reaching
  its caller.
\<close>

definition fetchFromRemoteOK ::
  "platform \<Rightarrow> (nat \<Rightarrow> string + Response) \<Rightarrow> (RemoteOKJob list \<Rightarrow> string option) \<Rightarrow>
     string + Job list" where
  "fetchFromRemoteOK P fetch saveRawData =
     (case fetchWithRetry fetch of
        None \<Rightarrow> Inr []
      | Some response \<Rightarrow>
          (case RemoteOK_try P response saveRawData of
             Inr jobs \<Rightarrow> Inr jobs
           | Inl err \<Rightarrow> Inr []))"

subsection \<open>Web3.Career\<close>

record Web3CareerJob =
  w3_id :: rat
  w3_title :: string
  w3_company :: string
  w3_apply_url :: string
  w3_date :: string
  w3_is_remote :: bool
  w3_location :: string
  w3_country :: string
  w3_tags :: "string list"
  w3_salary_min_value :: "(rat + string) nullish"
  w3_salary_max_value :: "(rat + string) nullish"
  w3_salary_currency :: "string nullish"
  w3_salary_unit :: "string nullish"

definition Web3CareerJobSchema :: "platform \<Rightarrow> json \<Rightarrow> Web3CareerJob option" where
  "Web3CareerJobSchema P item =
     (case item of
        JObj obj \<Rightarrow>
          do {
            i \<leftarrow> z_number (property obj ''id'');
            t \<leftarrow> z_min 1 z_string (property obj ''title'');
            comp \<leftarrow> z_min 1 z_string (property obj ''company'');
            u \<leftarrow> z_url P (property obj ''apply_url'');
            d \<leftarrow> z_string (property obj ''date'');
            is_remote \<leftarrow> z_default z_boolean False (property obj ''is_remote'');
            loc \<leftarrow> z_default z_string [] (property obj ''location'');
            country \<leftarrow> z_default z_string [] (property obj ''country'');
            tags \<leftarrow> z_default z_array_string [] (property obj ''tags'');
            salary_min_value \<leftarrow> z_nullish (z_union z_number z_string) (property obj ''salary_min_value'');
            salary_max_value \<leftarrow> z_nullish (z_union z_number z_string) (property obj ''salary_max_value'');
            salary_currency \<leftarrow> z_nullish z_string (property obj ''salary_currency'');
            salary_unit \<leftarrow> z_nullish z_string (property obj ''salary_unit'');
            Some \<lparr>w3_id = i, w3_title = t, w3_company = comp, w3_apply_url = u, w3_date = d,
                  w3_is_remote = is_remote, w3_location = loc, w3_country = country,
                  w3_tags = tags, w3_salary_min_value = salary_min_value,
                  w3_salary_max_value = salary_max_value,
                  w3_salary_currency = salary_currency, w3_salary_unit = salary_unit\<rparr>
          }
      | _ \<Rightarrow> None)"

text \<open>
  \<open>Number(v)\<close> of a salary value: \<open>undefined\<close> gives \<open>NaN\<close>, \<open>null\<close> gives \<open>0\<close>, a number
  is itself and a string is parsed. \<open>n || 0\<close> then replaces \<open>NaN\<close> (and \<open>0\<close>) by \<open>0\<close>.
\<close>

definition Number_of :: "platform \<Rightarrow> (rat + string) nullish \<Rightarrow> rat option" where
  "Number_of P v =
     (case v of
        Undefined \<Rightarrow> None
      | Null \<Rightarrow> Some 0
      | Value (Inl n) \<Rightarrow> Some n
      | Value (Inr s) \<Rightarrow> Number_ofString P s)"

definition num_or :: "rat option \<Rightarrow> rat \<Rightarrow> rat" where
  "num_or a b = (case a of None \<Rightarrow> b | Some n \<Rightarrow> if n = 0 then b else n)"

definition normalizeWeb3CareerSalary :: "platform \<Rightarrow> Web3CareerJob \<Rightarrow> Salary" where
  "normalizeWeb3CareerSalary P w =
     (let mn = num_or (Number_of P (w3_salary_min_value w)) 0;
          mx = num_or (Number_of P (w3_salary_max_value w)) 0;
          cur = (case w3_salary_currency w of Value c \<Rightarrow> c | _ \<Rightarrow> []);
          hasSalary = mn > 0 \<or> mx > 0
      in \<lparr>min' = mn,
          max' = mx,
          currency = (if hasSalary then str_or cur ''USD'' else []),
          raw = (if hasSalary
                 then str_or cur ''$'' @ Number_toString P mn @ ''-'' @ str_or cur ''$''
                      @ Number_toString P mx
                 else [])\<rparr>)"

definition normalizeWeb3CareerJob :: "platform \<Rightarrow> Web3CareerJob \<Rightarrow> Job" where
  "normalizeWeb3CareerJob P w =
     \<lparr>id' = generateJobId P (w3_title w) (w3_company w),
      title = w3_title w,
      company = w3_company w,
      url = w3_apply_url w,
      salary = normalizeWeb3CareerSalary P w,
      location = str_or (w3_location w) (str_or (w3_country w) ''Remote''),
      remote = w3_is_remote w,
      skills = map (toLowerCase P) (w3_tags w),
      postedAt = Date_parse P (w3_date w),
      source = web3career\<rparr>"

fun Web3Career_items ::
  "platform \<Rightarrow> json list \<Rightarrow> Job list \<Rightarrow> Web3CareerJob list \<Rightarrow> Job list \<times> Web3CareerJob list" where
  "Web3Career_items P [] jobs rawParsed = (jobs, rawParsed)"
| "Web3Career_items P (item # rest) jobs rawParsed =
     (case Web3CareerJobSchema P item of
        Some d \<Rightarrow> Web3Career_items P rest (jobs @ [normalizeWeb3CareerJob P d]) (rawParsed @ [d])
      | None \<Rightarrow> Web3Career_items P rest jobs rawParsed)"

text \<open>The job array is the third element of the response (\<open>data[2]\<close>), when it is an array.\<close>

definition Web3Career_try ::
  "platform \<Rightarrow> Response \<Rightarrow> (Web3CareerJob list \<Rightarrow> string option) \<Rightarrow> string + Job list" where
  "Web3Career_try P response saveRawData =
     (case json_body response of
        Inl err \<Rightarrow> Inl err
      | Inr data \<Rightarrow>
          (case data of
             JArr items \<Rightarrow>
               (let rawJobs = (case drop 2 items of JArr js # _ \<Rightarrow> js | _ \<Rightarrow> []);
                    (jobs, rawParsed) = Web3Career_items P rawJobs [] []
                in case saveRawData rawParsed of
                     Some err \<Rightarrow> Inl err
                   | None \<Rightarrow> Inr jobs)
           | _ \<Rightarrow> Inr []))"

text \<open>
  \<open>token\<close> is the environment variable \<open>WEB3_CAREER_API_KEY\<close>: unset (\<open>None\<close>) or empty,
  the adapter is disabled.
\<close>

definition fetchFromWeb3Career ::
  "platform \<Rightarrow> string option \<Rightarrow> (nat \<Rightarrow> string + Response) \<Rightarrow>
     (Web3CareerJob list \<Rightarrow> string option) \<Rightarrow> string + Job list" where
  "fetchFromWeb3Career P token fetch saveRawData =
     (if token = None \<or> token = Some [] then Inr []
      else (case fetchWithRetry fetch of
              None \<Rightarrow> Inr []
            | Some response \<Rightarrow>
                (case Web3Career_try P response saveRawData of
                   Inr jobs \<Rightarrow> Inr jobs
                 | Inl err \<Rightarrow> Inr [])))"

subsection \<open>fetchAllJobs\<close>

text \<open>
  The aggregation, as a function of the two job lists that the adapters resolved with.
  The loop carries the set \<open>seen\<close>, the list \<open>deduplicated\<close> and \<open>duplicateCount\<close>.
\<close>

fun fetchAllJobs_loop ::
  "Job list \<Rightarrow> string set \<Rightarrow> Job list \<Rightarrow> nat \<Rightarrow> Job list \<times> nat" where
  "fetchAllJobs_loop [] seen deduplicated duplicateCount = (deduplicated, duplicateCount)"
| "fetchAllJobs_loop (j # rest) seen deduplicated duplicateCount =
     (if id' j \<in> seen
      then fetchAllJobs_loop rest seen deduplicated (duplicateCount + 1)
      else fetchAllJobs_loop rest (insert (id' j) seen) (deduplicated @ [j]) duplicateCount)"

definition fetchAllJobs :: "Job list \<Rightarrow> Job list \<Rightarrow> Job list" where
  "fetchAllJobs remoteOKJobs web3Jobs =
     (let allJobs = remoteOKJobs @ web3Jobs
      in fst (fetchAllJobs_loop allJobs {} [] 0))"

definition fetchAllJobs_duplicateCount :: "Job list \<Rightarrow> Job list \<Rightarrow> nat" where
  "fetchAllJobs_duplicateCount remoteOKJobs web3Jobs =
     (let allJobs = remoteOKJobs @ web3Jobs
      in snd (fetchAllJobs_loop allJobs {} [] 0))"

text \<open>
  The earlier version of the file, \<open>src/fetcher.ts\<close>. There \<open>fetchFromWeb3Career\<close> is a
  placeholder that resolves with the empty list, and \<open>fetchAllJobs\<close> returns the
  concatenation; it is a function of the list that the RemoteOK adapter resolved with.
\<close>

definition fetchFromWeb3Career_fetcher :: "string + Job list" where
  "fetchFromWeb3Career_fetcher = Inr []"

definition fetchAllJobs_fetcher :: "Job list \<Rightarrow> Job list" where
  "fetchAllJobs_fetcher remoteOKJobs =
     (let web3Jobs = (case fetchFromWeb3Career_fetcher of Inr jobs \<Rightarrow> jobs | Inl err \<Rightarrow> []);
          allJobs = remoteOKJobs @ web3Jobs
      in allJobs)"

section \<open>Concrete inputs for the examples\<close>

text \<open>
  The examples below are evaluated on concrete jobs, on one platform. Its lower-casing
  is that of the language on the strings of the model: it folds \<open>A\<close> to \<open>Z\<close> and the
  capital letters of Latin-1 (the code units \<open>0xC0\<close> to \<open>0xDE\<close> except \<open>0xD7\<close>). Its
  other functions are given on the few arguments that the examples use, with the values
  that the real functions have there (the SHA-256 digests of the lower-cased title and
  company, the time values of two date strings, the decimal form of a few salaries);
  elsewhere they answer with the empty string, \<open>False\<close> or \<open>None\<close>. Its \<open>sort_impl\<close>
  leaves the array as it is, which is what the engines do to the one array of the
  examples that it is applied to: there each element compares as equal to its neighbour.
  No theorem depends on these choices: each is proved for every platform.
\<close>

definition latin1_upper :: string where
  "latin1_upper =
     ''ABCDEFGHIJKLMNOPQRSTUVWXYZ'' @
       [CHR 0xC0, CHR 0xC1, CHR 0xC2, CHR 0xC3, CHR 0xC4, CHR 0xC5, CHR 0xC6, CHR 0xC7,
        CHR 0xC8, CHR 0xC9, CHR 0xCA, CHR 0xCB, CHR 0xCC, CHR 0xCD, CHR 0xCE, CHR 0xCF,
        CHR 0xD0, CHR 0xD1, CHR 0xD2, CHR 0xD3, CHR 0xD4, CHR 0xD5, CHR 0xD6, CHR 0xD8,
        CHR 0xD9, CHR 0xDA, CHR 0xDB, CHR 0xDC, CHR 0xDD, CHR 0xDE]"

definition latin1_lower :: string where
  "latin1_lower =
     ''abcdefghijklmnopqrstuvwxyz'' @
       [CHR 0xE0, CHR 0xE1, CHR 0xE2, CHR 0xE3, CHR 0xE4, CHR 0xE5, CHR 0xE6, CHR 0xE7,
        CHR 0xE8, CHR 0xE9, CHR 0xEA, CHR 0xEB, CHR 0xEC, CHR 0xED, CHR 0xEE, CHR 0xEF,
        CHR 0xF0, CHR 0xF1, CHR 0xF2, CHR 0xF3, CHR 0xF4, CHR 0xF5, CHR 0xF6, CHR 0xF8,
        CHR 0xF9, CHR 0xFA, CHR 0xFB, CHR 0xFC, CHR 0xFD, CHR 0xFE]"

definition example_toLowerCase :: "string \<Rightarrow> string" where
  "example_toLowerCase s =
     map (\<lambda>c. case map_of (zip latin1_upper latin1_lower) c of Some l \<Rightarrow> l | None \<Rightarrow> c) s"

definition example_platform :: platform where
  "example_platform =
     \<lparr>toLowerCase = example_toLowerCase,
      sha256_hex = (\<lambda>s. case map_of
          [(''backend engineeracme'',
              ''bb83e7d6794fa3e7e8eae688163eeb01e1e315c4c531cf00fb21fe7adfa54797''),
           (''data engineeracme'',
              ''8a209c861872388c66a35820505cd3c0756880e2ab492ee8f2003f436ba686e4''),
           (''backend engineerinitech'',
              ''0e802b9ad6035f2d30e99afbc4f6756d7eaf0da1c55ecb025c1b80e59c75879d''),
           (''crypto backend engineeracme'',
              ''36952194c1bb3f7cadb53c0df3167235559674e1634597016a85a4c1a1ea4a3a''),
           (''olderacme'',
              ''2e48cddea4ac551dd9dbbaf4525add4692050745910e8aac1a4a8cf8cd8faaf5''),
           (''undatedacme'',
              ''c226d1e2fc081b2bf0887a24956b1d14ae1ce8cb829598c6fd754fe1c4dd7fa0''),
           (''neweracme'',
              ''d2415e102c7b2ab83681ef62a7a8d5ca72d5dc060873fb6f773e79f1358569fc''),
           (''bestacme'',
              ''67b288f569577362462920407c018f1e703fb78da28d64cdb6ec0bbe03a16aa3'')] s of
          Some h \<Rightarrow> h | None \<Rightarrow> []),
      valid_url = (\<lambda>s. s \<in> set [''https://example.org/job'', ''https://remoteok.com/l/1001'',
                                   ''https://remoteok.com/l/1002'', ''https://web3.career/j/7'']),
      Date_parse = map_of
          [(''2024-01-05T00:00:00+00:00'', 1704412800000), (''2024-01-02'', 1704153600000)],
      Number_toString = (\<lambda>n. case map_of
          [(0, ''0''), (90000, ''90000''), (120000, ''120000''), (150000, ''150000'')] n of
          Some d \<Rightarrow> d | None \<Rightarrow> []),
      Number_ofString = map_of [(''-5'', - 5), (''150000'', 150000)],
      sort_impl = (\<lambda>comparefn xs. xs)\<rparr>"

definition example_job :: "string \<Rightarrow> string \<Rightarrow> string list \<Rightarrow> Job" where
  "example_job t c sk =
     \<lparr>id' = generateJobId example_platform t c,
      title = t,
      company = c,
      url = ''https://example.org/job'',
      salary = \<lparr>min' = 0, max' = 0, currency = [], raw = []\<rparr>,
      location = ''Remote'',
      remote = True,
      skills = sk,
      postedAt = None,
      source = remoteok\<rparr>"

text \<open>
  A RemoteOK item and a Web3.Career item with the required properties only, and the
  records that the schemas make of them.
\<close>

definition example_remoteok_obj :: "string \<Rightarrow> string \<Rightarrow> (string \<times> json) list" where
  "example_remoteok_obj t c =
     [(''id'', JStr ''1001''), (''position'', JStr t), (''company'', JStr c),
      (''url'', JStr ''https://remoteok.com/l/1001''),
      (''date'', JStr ''2024-01-05T00:00:00+00:00'')]"

definition example_remoteok_raw :: "string \<Rightarrow> string \<Rightarrow> RemoteOKJob" where
  "example_remoteok_raw t c =
     \<lparr>rok_id = ''1001'', rok_position = t, rok_company = c,
      rok_url = ''https://remoteok.com/l/1001'',
      rok_salary_min = 0, rok_salary_max = 0, rok_location = [], rok_tags = [],
      rok_date = ''2024-01-05T00:00:00+00:00''\<rparr>"

definition example_web3_obj :: "string \<Rightarrow> string \<Rightarrow> (string \<times> json) list" where
  "example_web3_obj t c =
     [(''id'', JNum 7), (''title'', JStr t), (''company'', JStr c),
      (''apply_url'', JStr ''https://web3.career/j/7''), (''date'', JStr ''2024-01-02'')]"

definition example_web3_raw :: "string \<Rightarrow> string \<Rightarrow> Web3CareerJob" where
  "example_web3_raw t c =
     \<lparr>w3_id = 7, w3_title = t, w3_company = c,
      w3_apply_url = ''https://web3.career/j/7'', w3_date = ''2024-01-02'',
      w3_is_remote = False, w3_location = [], w3_country = [], w3_tags = [],
      w3_salary_min_value = Undefined, w3_salary_max_value = Undefined,
      w3_salary_currency = Undefined, w3_salary_unit = Undefined\<rparr>"

definition example_match :: "string \<Rightarrow> int \<Rightarrow> Date \<Rightarrow> MatchResult" where
  "example_match t s d =
     \<lparr>job = (example_job t ''Acme'' [''rust''])\<lparr>postedAt := d\<rparr>,
      score = s,
      matchedSkills = [''rust''],
      explanation = []\<rparr>"

section \<open>Properties of the matcher\<close>

lemma includes_str_sublist: "includes_str s p = sublist p s"
proof (induction s)
  case Nil
  show ?case by simp
next
  case (Cons c cs)
  have "take (length p) (c # cs) = p \<longleftrightarrow> prefix p (c # cs)"
    by (metis prefix_def append_take_drop_id append_eq_conv_conj)
  with Cons show ?case
    by (simp add: sublist_Cons_right)
qed

lemma includes_str_iff: "includes_str s p \<longleftrightarrow> (\<exists>a b. s = a @ p @ b)"
  by (simp add: includes_str_sublist sublist_def)

lemma filterHardNos_loop_eq:
  "filterHardNos_loop P patterns jobs passed excluded =
     (passed @ filter (\<lambda>j. \<not> list_ex (\<lambda>pattern. list_ex (\<lambda>field. includes_str field pattern)
                                 (map (toLowerCase P) (title j # company j # skills j))) patterns) jobs,
      excluded + length (filter (\<lambda>j. list_ex (\<lambda>pattern. list_ex (\<lambda>field. includes_str field pattern)
                                 (map (toLowerCase P) (title j # company j # skills j))) patterns) jobs))"
proof (induction jobs arbitrary: passed excluded)
  case Nil
  show ?case by simp
next
  case (Cons j jobs)
  show ?case
    by (simp add: Cons.IH Let_def filter_empty_conv list_ex_iff)
qed

lemma example_toLowerCase_strings:
  "example_toLowerCase ''Crypto Backend Engineer'' = ''crypto backend engineer''"
  "example_toLowerCase ''Backend Engineer'' = ''backend engineer''"
  "example_toLowerCase ''Acme'' = ''acme''"
  "example_toLowerCase ''Crypto'' = ''crypto''"
  "example_toLowerCase ''rust'' = ''rust''"
  "example_toLowerCase ''cryptography'' = ''cryptography''"
  "example_toLowerCase (CHR 0xC9 # ''cole Dev'') = CHR 0xE9 # ''cole dev''"
  "example_toLowerCase (CHR 0xE9 # ''cole'') = CHR 0xE9 # ''cole''"
  by (simp_all add: example_toLowerCase_def latin1_upper_def latin1_lower_def)

text \<open>
  C4. With a non-empty hard-no list, \<open>filterHardNos\<close> returns, in their original order,
  exactly the jobs for which no pattern occurs, ignoring case, in the title, the company
  or a skill tag: no lower-cased pattern is a substring of a lower-cased field. The
  pattern \<open>crypto\<close> excludes a job titled \<open>Crypto Backend Engineer\<close>.
\<close>

theorem filterHardNos_keeps_unmatched:
  assumes "hs \<noteq> []"
  shows "filterHardNos P jobs hs =
           filter (\<lambda>j. \<not> (\<exists>p \<in> set hs. \<exists>f \<in> set (title j # company j # skills j).
                             \<exists>a b. toLowerCase P f = a @ toLowerCase P p @ b)) jobs
         \<and> (toLowerCase P ''Crypto Backend Engineer'' = ''crypto backend engineer''
              \<and> toLowerCase P ''crypto'' = ''crypto''
            \<longrightarrow> filterHardNos P [j0\<lparr>title := ''Crypto Backend Engineer''\<rparr>] [''crypto''] = [])"
proof
  have "filterHardNos P jobs hs =
          filter (\<lambda>j. \<not> list_ex (\<lambda>pattern. list_ex (\<lambda>field. includes_str field pattern)
                   (map (toLowerCase P) (title j # company j # skills j))) (map (toLowerCase P) hs)) jobs"
    using assms by (simp add: filterHardNos_def filterHardNos_loop_eq)
  also have "\<dots> = filter (\<lambda>j. \<not> (\<exists>p \<in> set hs. \<exists>f \<in> set (title j # company j # skills j).
                             \<exists>a b. toLowerCase P f = a @ toLowerCase P p @ b)) jobs"
    by (rule filter_cong) (auto simp: list_ex_iff includes_str_iff)
  finally show "filterHardNos P jobs hs =
           filter (\<lambda>j. \<not> (\<exists>p \<in> set hs. \<exists>f \<in> set (title j # company j # skills j).
                             \<exists>a b. toLowerCase P f = a @ toLowerCase P p @ b)) jobs" .
  show "toLowerCase P ''Crypto Backend Engineer'' = ''crypto backend engineer''
              \<and> toLowerCase P ''crypto'' = ''crypto''
            \<longrightarrow> filterHardNos P [j0\<lparr>title := ''Crypto Backend Engineer''\<rparr>] [''crypto''] = []"
    by (simp add: filterHardNos_def)
qed

theorem filterHardNos_keeps_unmatched_witness:
  "[''Crypto''] \<noteq> ([] :: string list)
   \<and> filterHardNos example_platform
         [example_job ''Crypto Backend Engineer'' ''Acme'' [''rust''],
          example_job ''Backend Engineer'' ''Acme'' [''rust''],
          example_job ''Backend Engineer'' ''Acme'' [''rust'', ''cryptography'']]
         [''Crypto'']
       = [example_job ''Backend Engineer'' ''Acme'' [''rust'']]
   \<and> [CHR 0xE9 # ''cole''] \<noteq> ([] :: string list)
   \<and> filterHardNos example_platform
         [example_job (CHR 0xC9 # ''cole Dev'') ''Acme'' [''rust''],
          example_job ''Backend Engineer'' ''Acme'' [''rust'']]
         [CHR 0xE9 # ''cole'']
       = [example_job ''Backend Engineer'' ''Acme'' [''rust'']]"
proof -
  have h: "[''Crypto''] \<noteq> ([] :: string list)" "[CHR 0xE9 # ''cole''] \<noteq> ([] :: string list)"
    by simp_all
  have "filterHardNos example_platform
          [example_job ''Crypto Backend Engineer'' ''Acme'' [''rust''],
           example_job ''Backend Engineer'' ''Acme'' [''rust''],
           example_job ''Backend Engineer'' ''Acme'' [''rust'', ''cryptography'']]
          [''Crypto'']
        = filter (\<lambda>j. \<not> (\<exists>p \<in> set [''Crypto'']. \<exists>f \<in> set (title j # company j # skills j).
                             \<exists>a b. toLowerCase example_platform f
                                      = a @ toLowerCase example_platform p @ b))
          [example_job ''Crypto Backend Engineer'' ''Acme'' [''rust''],
           example_job ''Backend Engineer'' ''Acme'' [''rust''],
           example_job ''Backend Engineer'' ''Acme'' [''rust'', ''cryptography'']]"
    using filterHardNos_keeps_unmatched [OF h(1)] by blast
  also have "\<dots> = [example_job ''Backend Engineer'' ''Acme'' [''rust'']]"
    by (simp only: includes_str_iff [symmetric])
      (simp add: example_job_def example_platform_def example_toLowerCase_strings)
  finally have one: "filterHardNos example_platform
          [example_job ''Crypto Backend Engineer'' ''Acme'' [''rust''],
           example_job ''Backend Engineer'' ''Acme'' [''rust''],
           example_job ''Backend Engineer'' ''Acme'' [''rust'', ''cryptography'']]
          [''Crypto'']
        = [example_job ''Backend Engineer'' ''Acme'' [''rust'']]" .
  have "filterHardNos example_platform
         [example_job (CHR 0xC9 # ''cole Dev'') ''Acme'' [''rust''],
          example_job ''Backend Engineer'' ''Acme'' [''rust'']]
         [CHR 0xE9 # ''cole'']
        = filter (\<lambda>j. \<not> (\<exists>p \<in> set [CHR 0xE9 # ''cole'']. \<exists>f \<in> set (title j # company j # skills j).
                             \<exists>a b. toLowerCase example_platform f
                                      = a @ toLowerCase example_platform p @ b))
          [example_job (CHR 0xC9 # ''cole Dev'') ''Acme'' [''rust''],
           example_job ''Backend Engineer'' ''Acme'' [''rust'']]"
    using filterHardNos_keeps_unmatched [OF h(2)] by blast
  also have "\<dots> = [example_job ''Backend Engineer'' ''Acme'' [''rust'']]"
    by (simp only: includes_str_iff [symmetric])
      (simp add: example_job_def example_platform_def example_toLowerCase_strings)
  finally show ?thesis
    using h one by simp
qed

text \<open>
  C5. With an empty hard-no list, \<open>filterHardNos\<close> returns the sequence it was given: the
  same jobs in the same order.
\<close>

theorem filterHardNos_empty: "filterHardNos P jobs [] = jobs"
  by (simp add: filterHardNos_def)

lemma Math_round_min: "min 100 (Math_round x) = Math_round (min 100 x)"
  unfolding Math_round_def min_def by (simp; linarith)

lemma Math_round_nearest:
  "of_int (Math_round x) - 1 / 2 \<le> x \<and> x < of_int (Math_round x) + 1 / 2"
  unfolding Math_round_def by linarith

lemma includes_str_self: "includes_str s s"
  unfolding includes_str_iff by (rule exI [of _ "[]"], rule exI [of _ "[]"]) simp

text \<open>The arithmetic of two examples, in doubles: two skills of three with both bonuses,
  and 23 skills of 40 with none (\<open>23 / 40 * 100\<close> is the double \<open>57.49999999999999\<close>).\<close>

lemma score_two_of_three:
  "min 100 (Math_round (js_add (js_add (js_mul (js_div 2 3) 100) 10) 10)) = 87"
  by code_simp

lemma score_23_of_40:
  "min 100 (Math_round (js_add (js_add (js_mul (js_div 23 40) 100) 0) 0)) = 57"
  by code_simp


text \<open>
  C1. When the configuration has at least one preference skill, \<open>scoreJob\<close> returns the
  integer \<open>round(min(100, skillScore + salaryBonus + locationBonus))\<close>, the arithmetic
  being that of the program's numbers: the matched skills are the lower-cased preference
  skills equal to some lower-cased job skill, \<open>skillScore\<close> is their number over the
  number of preference skills, times 100, the salary bonus is 10 when the job's minimum
  salary reaches the preferred minimum, and the location bonus is 10 when the lower-cased
  job location contains the lower-cased preferred location or the latter contains
  \<open>remote\<close>. The score is the integer nearest to the clamped sum (a tie going up). Two
  skills matched out of three, with both bonuses, score 87.
\<close>

theorem scoreJob_formula:
  assumes "skills_pref (preferences config) \<noteq> []"
  shows "(let userSkills = map (toLowerCase P) (skills_pref (preferences config));
              jobSkills = map (toLowerCase P) (skills j);
              matched = filter (\<lambda>s. s \<in> set jobSkills) userSkills;
              skillScore = js_mul (js_div (of_nat (length matched)) (of_nat (length userSkills))) 100;
              salaryBonus = (if min' (salary j) \<ge> salaryMinimum (preferences config) then 10 else 0);
              userLocation = toLowerCase P (location_pref (preferences config));
              jobLocation = toLowerCase P (location j);
              locationBonus =
                (if (\<exists>a b. jobLocation = a @ userLocation @ b) \<or> (\<exists>a b. userLocation = a @ ''remote'' @ b)
                 then 10 else 0);
              total = min 100 (js_add (js_add skillScore salaryBonus) locationBonus)
          in scoreJob P j config = (Some (Math_round total), matched)
             \<and> (\<exists>k. fst (scoreJob P j config) = Some k
                    \<and> of_int k - 1 / 2 \<le> total \<and> total < of_int k + 1 / 2))
         \<and> (skills j = [''rust'', ''go'']
              \<and> skills_pref (preferences config) = [''rust'', ''go'', ''python'']
              \<and> map (toLowerCase P) [''rust'', ''go'', ''python''] = [''rust'', ''go'', ''python'']
              \<and> min' (salary j) \<ge> salaryMinimum (preferences config)
              \<and> location j = location_pref (preferences config)
            \<longrightarrow> fst (scoreJob P j config) = Some 87)"
proof
  define userSkills where "userSkills = map (toLowerCase P) (skills_pref (preferences config))"
  define matched where
    "matched = filter (\<lambda>s. s \<in> set (map (toLowerCase P) (skills j))) userSkills"
  define total where
    "total = min 100 (js_add (js_add
        (js_mul (js_div (of_nat (length matched)) (of_nat (length userSkills))) 100)
        (if min' (salary j) \<ge> salaryMinimum (preferences config) then 10 else 0))
        (if (\<exists>a b. toLowerCase P (location j)
                      = a @ toLowerCase P (location_pref (preferences config)) @ b)
            \<or> (\<exists>a b. toLowerCase P (location_pref (preferences config)) = a @ ''remote'' @ b)
         then 10 else 0))"
  have eq: "scoreJob P j config = (Some (Math_round total), matched)"
    using assms unfolding total_def matched_def userSkills_def
    by (simp add: scoreJob_def Let_def Math_round_min includes_str_iff list_ex_iff
        cong: filter_cong)
  have "\<exists>k. fst (scoreJob P j config) = Some k
             \<and> of_int k - 1 / 2 \<le> total \<and> total < of_int k + 1 / 2"
    using Math_round_nearest [of total] by (simp add: eq)
  with eq show "(let userSkills = map (toLowerCase P) (skills_pref (preferences config));
              jobSkills = map (toLowerCase P) (skills j);
              matched = filter (\<lambda>s. s \<in> set jobSkills) userSkills;
              skillScore = js_mul (js_div (of_nat (length matched)) (of_nat (length userSkills))) 100;
              salaryBonus = (if min' (salary j) \<ge> salaryMinimum (preferences config) then 10 else 0);
              userLocation = toLowerCase P (location_pref (preferences config));
              jobLocation = toLowerCase P (location j);
              locationBonus =
                (if (\<exists>a b. jobLocation = a @ userLocation @ b) \<or> (\<exists>a b. userLocation = a @ ''remote'' @ b)
                 then 10 else 0);
              total = min 100 (js_add (js_add skillScore salaryBonus) locationBonus)
          in scoreJob P j config = (Some (Math_round total), matched)
             \<and> (\<exists>k. fst (scoreJob P j config) = Some k
                    \<and> of_int k - 1 / 2 \<le> total \<and> total < of_int k + 1 / 2))"
    unfolding Let_def total_def matched_def userSkills_def by blast
next
  show "skills j = [''rust'', ''go'']
          \<and> skills_pref (preferences config) = [''rust'', ''go'', ''python'']
          \<and> map (toLowerCase P) [''rust'', ''go'', ''python''] = [''rust'', ''go'', ''python'']
          \<and> min' (salary j) \<ge> salaryMinimum (preferences config)
          \<and> location j = location_pref (preferences config)
        \<longrightarrow> fst (scoreJob P j config) = Some 87"
    by (simp add: scoreJob_def Let_def includes_str_self score_two_of_three)
qed

theorem scoreJob_formula_witness:
  "skills_pref (preferences
      \<lparr>preferences = \<lparr>skills_pref = [''Rust'', ''Go'', ''Python''], salaryMinimum = 90000,
                       location_pref = ''Berlin''\<rparr>,
       hardNos = []\<rparr>) \<noteq> []
   \<and> scoreJob example_platform
        ((example_job ''Backend Engineer'' ''Acme'' [''rust'', ''go''])
           \<lparr>salary := \<lparr>min' = 100000, max' = 120000, currency = ''USD'', raw = ''$100000-$120000''\<rparr>,
            location := ''Berlin''\<rparr>)
        \<lparr>preferences = \<lparr>skills_pref = [''Rust'', ''Go'', ''Python''], salaryMinimum = 90000,
                         location_pref = ''Berlin''\<rparr>,
         hardNos = []\<rparr>
      = (Some 87, [''rust'', ''go''])
   \<and> skills_pref (preferences
      \<lparr>preferences = \<lparr>skills_pref = replicate 23 ''rust'' @ replicate 17 ''go'',
                       salaryMinimum = 90000, location_pref = ''Berlin''\<rparr>,
       hardNos = []\<rparr>) \<noteq> []
   \<and> scoreJob example_platform
        (example_job ''Backend Engineer'' ''Acme'' [''rust''])
        \<lparr>preferences = \<lparr>skills_pref = replicate 23 ''rust'' @ replicate 17 ''go'',
                         salaryMinimum = 90000, location_pref = ''Berlin''\<rparr>,
         hardNos = []\<rparr>
      = (Some 57, replicate 23 ''rust'')"
proof -
  have low: "example_toLowerCase ''Rust'' = ''rust''" "example_toLowerCase ''Go'' = ''go''"
    "example_toLowerCase ''Python'' = ''python''" "example_toLowerCase ''rust'' = ''rust''"
    "example_toLowerCase ''go'' = ''go''" "example_toLowerCase ''Berlin'' = ''berlin''"
    "example_toLowerCase ''Remote'' = ''remote''"
    by (simp_all add: example_toLowerCase_def latin1_upper_def latin1_lower_def)
  have a: "scoreJob example_platform
        ((example_job ''Backend Engineer'' ''Acme'' [''rust'', ''go''])
           \<lparr>salary := \<lparr>min' = 100000, max' = 120000, currency = ''USD'', raw = ''$100000-$120000''\<rparr>,
            location := ''Berlin''\<rparr>)
        \<lparr>preferences = \<lparr>skills_pref = [''Rust'', ''Go'', ''Python''], salaryMinimum = 90000,
                         location_pref = ''Berlin''\<rparr>,
         hardNos = []\<rparr>
      = (Some 87, [''rust'', ''go''])"
    using scoreJob_formula
      [of "\<lparr>preferences = \<lparr>skills_pref = [''Rust'', ''Go'', ''Python''], salaryMinimum = 90000,
                           location_pref = ''Berlin''\<rparr>,
            hardNos = []\<rparr>"
          example_platform
          "(example_job ''Backend Engineer'' ''Acme'' [''rust'', ''go''])
             \<lparr>salary := \<lparr>min' = 100000, max' = 120000, currency = ''USD'', raw = ''$100000-$120000''\<rparr>,
              location := ''Berlin''\<rparr>"]
    unfolding includes_str_iff [symmetric]
    by (simp add: Let_def example_job_def example_platform_def low score_two_of_three
        Math_round_min [symmetric])
  have b: "scoreJob example_platform
        (example_job ''Backend Engineer'' ''Acme'' [''rust''])
        \<lparr>preferences = \<lparr>skills_pref = replicate 23 ''rust'' @ replicate 17 ''go'',
                         salaryMinimum = 90000, location_pref = ''Berlin''\<rparr>,
         hardNos = []\<rparr>
      = (Some 57, replicate 23 ''rust'')"
    using scoreJob_formula
      [of "\<lparr>preferences = \<lparr>skills_pref = replicate 23 ''rust'' @ replicate 17 ''go'',
                           salaryMinimum = 90000, location_pref = ''Berlin''\<rparr>,
            hardNos = []\<rparr>"
          example_platform
          "example_job ''Backend Engineer'' ''Acme'' [''rust'']"]
    unfolding includes_str_iff [symmetric]
    by (simp add: Let_def example_job_def example_platform_def low score_23_of_40
        Math_round_min [symmetric])
  show ?thesis
    using a b by simp
qed

section \<open>Properties of the aggregation\<close>

lemma fetchAllJobs_loop_filter_id:
  "filter (\<lambda>j. id' j = k) (fst (fetchAllJobs_loop xs seen dd dc)) =
     filter (\<lambda>j. id' j = k) dd @ (if k \<in> seen then [] else take 1 (filter (\<lambda>j. id' j = k) xs))"
  by (induction xs arbitrary: seen dd dc) auto

lemma fetchAllJobs_loop_length:
  "length (fst (fetchAllJobs_loop xs seen dd dc)) + snd (fetchAllJobs_loop xs seen dd dc) =
     length dd + dc + length xs"
  by (induction xs arbitrary: seen dd dc) auto

lemma fetchAllJobs_loop_distinct:
  "distinct (map id' dd) \<Longrightarrow> id' ` set dd \<subseteq> seen \<Longrightarrow>
     distinct (map id' (fst (fetchAllJobs_loop xs seen dd dc)))"
proof (induction xs arbitrary: seen dd dc)
  case Nil
  then show ?case by simp
next
  case (Cons j rest)
  show ?case
  proof (cases "id' j \<in> seen")
    case True
    with Cons.IH [OF Cons.prems] show ?thesis by simp
  next
    case False
    have "distinct (map id' (dd @ [j]))"
      using False Cons.prems by auto
    moreover have "id' ` set (dd @ [j]) \<subseteq> insert (id' j) seen"
      using Cons.prems by auto
    ultimately have "distinct (map id' (fst (fetchAllJobs_loop rest (insert (id' j) seen) (dd @ [j]) dc)))"
      by (rule Cons.IH)
    with False show ?thesis by simp
  qed
qed

lemma fetchAllJobs_loop_all_distinct:
  "distinct (map id' xs) \<Longrightarrow> id' ` set xs \<inter> seen = {} \<Longrightarrow>
     fetchAllJobs_loop xs seen dd dc = (dd @ xs, dc)"
  by (induction xs arbitrary: seen dd dc) auto

lemma fetchAllJobs_loop_subseq:
  "subseq (fst (fetchAllJobs_loop xs seen dd dc)) (dd @ xs)"
proof (induction xs arbitrary: seen dd dc)
  case Nil
  show ?case by simp
next
  case (Cons j rest)
  show ?case
  proof (cases "id' j \<in> seen")
    case True
    have "subseq (fst (fetchAllJobs_loop rest seen dd (dc + 1))) (dd @ rest)"
      by (rule Cons.IH)
    also have "subseq (dd @ rest) (dd @ j # rest)"
      by (intro list_emb_append_mono) auto
    finally show ?thesis using True by simp
  next
    case False
    have "subseq (fst (fetchAllJobs_loop rest (insert (id' j) seen) (dd @ [j]) dc)) ((dd @ [j]) @ rest)"
      by (rule Cons.IH)
    then show ?thesis using False by simp
  qed
qed

lemma index_filter_Cons:
  "map ((!) (x # xs)) (filter Q [0..<Suc (length xs)]) =
     (if Q 0 then [x] else []) @ map ((!) xs) (filter (\<lambda>i. Q (Suc i)) [0..<length xs])"
proof -
  have "[0..<Suc (length xs)] = 0 # map Suc [0..<length xs]"
    by (simp add: upt_conv_Cons map_Suc_upt del: upt_Suc)
  then show ?thesis
    by (simp add: filter_map comp_def del: upt_Suc)
qed

lemma fetchAllJobs_loop_index:
  "fetchAllJobs_loop xs seen dd dc =
     (dd @ map ((!) xs) (filter (\<lambda>i. id' (xs ! i) \<notin> seen \<union> id' ` set (take i xs)) [0..<length xs]),
      dc + length (filter (\<lambda>i. id' (xs ! i) \<in> seen \<union> id' ` set (take i xs)) [0..<length xs]))"
proof (induction xs arbitrary: seen dd dc)
  case Nil
  show ?case by simp
next
  case (Cons j rest)
  have len: "length (filter Q [0..<Suc (length rest)]) =
      (if Q 0 then 1 else 0) + length (filter (\<lambda>i. Q (Suc i)) [0..<length rest])" for Q
    using arg_cong [OF index_filter_Cons [of j rest Q], of length] by simp
  show ?case
  proof (cases "id' j \<in> seen")
    case True
    then have eq: "(x \<notin> seen \<and> x \<noteq> id' j \<and> R) = (x \<notin> seen \<and> R)"
      "(x \<in> seen \<or> x = id' j \<or> R) = (x \<in> seen \<or> R)" for x R
      by auto
    show ?thesis using True
      by (simp add: Cons.IH index_filter_Cons len eq del: upt_Suc)
  next
    case False
    show ?thesis using False
      by (simp add: Cons.IH index_filter_Cons len conj_ac disj_ac del: upt_Suc)
  qed
qed


text \<open>
  C2. The aggregation keeps, for each id, exactly the first job with that id in the
  order of concatenation (the jobs of RemoteOK first) and drops every later job with an
  equal id. Its output has no two jobs with equal id, its length is the length of the
  input less the number of dropped duplicates, and of two jobs with the same title and
  company, one from each provider, it keeps the one of the provider listed first.
\<close>

theorem fetchAllJobs_keeps_first:
  "(let allJobs = a @ b; out = fetchAllJobs a b in
      out = map ((!) allJobs)
              (filter (\<lambda>i. id' (allJobs ! i) \<notin> id' ` set (take i allJobs)) [0..<length allJobs])
      \<and> filter (\<lambda>j. id' j = k) out = take 1 (filter (\<lambda>j. id' j = k) allJobs)
      \<and> distinct (map id' out)
      \<and> length out + fetchAllJobs_duplicateCount a b = length allJobs
      \<and> fetchAllJobs_duplicateCount a b =
          length (filter (\<lambda>i. id' (allJobs ! i) \<in> id' ` set (take i allJobs)) [0..<length allJobs])
      \<and> (filter (\<lambda>j. id' j = k) a = [x] \<and> filter (\<lambda>j. id' j = k) b = [y]
            \<longrightarrow> filter (\<lambda>j. id' j = k) out = [x]))
   \<and> (rok_position r = w3_title w \<and> rok_company r = w3_company w
        \<longrightarrow> fetchAllJobs [normalizeRemoteOKJob P r] [normalizeWeb3CareerJob P w]
              = [normalizeRemoteOKJob P r])"
proof -
  have idx: "fetchAllJobs a b = map ((!) (a @ b))
              (filter (\<lambda>i. id' ((a @ b) ! i) \<notin> id' ` set (take i (a @ b))) [0..<length (a @ b)])"
    unfolding fetchAllJobs_def Let_def fetchAllJobs_loop_index by simp
  have cnt: "fetchAllJobs_duplicateCount a b =
          length (filter (\<lambda>i. id' ((a @ b) ! i) \<in> id' ` set (take i (a @ b))) [0..<length (a @ b)])"
    unfolding fetchAllJobs_duplicateCount_def Let_def fetchAllJobs_loop_index by simp
  have fst1: "filter (\<lambda>j. id' j = k) (fetchAllJobs a b) = take 1 (filter (\<lambda>j. id' j = k) (a @ b))"
    unfolding fetchAllJobs_def Let_def fetchAllJobs_loop_filter_id by simp
  have dist: "distinct (map id' (fetchAllJobs a b))"
    unfolding fetchAllJobs_def Let_def by (rule fetchAllJobs_loop_distinct) simp_all
  have len: "length (fetchAllJobs a b) + fetchAllJobs_duplicateCount a b = length (a @ b)"
    unfolding fetchAllJobs_def fetchAllJobs_duplicateCount_def Let_def
    using fetchAllJobs_loop_length [of "a @ b" "{}" "[]" 0] by simp
  have two: "filter (\<lambda>j. id' j = k) (fetchAllJobs a b) = [x]"
    if "filter (\<lambda>j. id' j = k) a = [x]" "filter (\<lambda>j. id' j = k) b = [y]"
    using that by (simp add: fst1)
  have scen: "fetchAllJobs [normalizeRemoteOKJob P r] [normalizeWeb3CareerJob P w]
              = [normalizeRemoteOKJob P r]"
    if "rok_position r = w3_title w" "rok_company r = w3_company w"
    using that
    by (simp add: fetchAllJobs_def normalizeRemoteOKJob_def normalizeWeb3CareerJob_def Let_def)
  show ?thesis
    unfolding Let_def using idx cnt fst1 dist len two scen by blast
qed

theorem fetchAllJobs_keeps_first_witness:
  "rok_position (example_remoteok_raw ''Backend Engineer'' ''Acme'')
       = w3_title (example_web3_raw ''Backend Engineer'' ''Acme'')
   \<and> rok_company (example_remoteok_raw ''Backend Engineer'' ''Acme'')
       = w3_company (example_web3_raw ''Backend Engineer'' ''Acme'')
   \<and> fetchAllJobs
        [normalizeRemoteOKJob example_platform (example_remoteok_raw ''Backend Engineer'' ''Acme'')]
        [normalizeWeb3CareerJob example_platform (example_web3_raw ''Backend Engineer'' ''Acme'')]
      = [normalizeRemoteOKJob example_platform (example_remoteok_raw ''Backend Engineer'' ''Acme'')]
   \<and> fetchAllJobs
        [example_job ''Backend Engineer'' ''Acme'' [''rust''],
         example_job ''Data Engineer'' ''Acme'' [''sql'']]
        [(example_job ''Backend Engineer'' ''Acme'' [''go''])\<lparr>source := web3career\<rparr>,
         (example_job ''Backend Engineer'' ''Initech'' [''go''])\<lparr>source := web3career\<rparr>]
      = [example_job ''Backend Engineer'' ''Acme'' [''rust''],
         example_job ''Data Engineer'' ''Acme'' [''sql''],
         (example_job ''Backend Engineer'' ''Initech'' [''go''])\<lparr>source := web3career\<rparr>]
   \<and> fetchAllJobs_duplicateCount
        [example_job ''Backend Engineer'' ''Acme'' [''rust''],
         example_job ''Data Engineer'' ''Acme'' [''sql'']]
        [(example_job ''Backend Engineer'' ''Acme'' [''go''])\<lparr>source := web3career\<rparr>,
         (example_job ''Backend Engineer'' ''Initech'' [''go''])\<lparr>source := web3career\<rparr>]
      = 1"
proof -
  define j1 where "j1 = example_job ''Backend Engineer'' ''Acme'' [''rust'']"
  define j2 where "j2 = example_job ''Data Engineer'' ''Acme'' [''sql'']"
  define j3 where "j3 = (example_job ''Backend Engineer'' ''Acme'' [''go''])\<lparr>source := web3career\<rparr>"
  define j4 where "j4 = (example_job ''Backend Engineer'' ''Initech'' [''go''])\<lparr>source := web3career\<rparr>"
  have ids:
    "id' j1 = ''bb83e7d6794fa3e7e8eae688163eeb01e1e315c4c531cf00fb21fe7adfa54797''"
    "id' j2 = ''8a209c861872388c66a35820505cd3c0756880e2ab492ee8f2003f436ba686e4''"
    "id' j3 = ''bb83e7d6794fa3e7e8eae688163eeb01e1e315c4c531cf00fb21fe7adfa54797''"
    "id' j4 = ''0e802b9ad6035f2d30e99afbc4f6756d7eaf0da1c55ecb025c1b80e59c75879d''"
    by (simp_all add: j1_def j2_def j3_def j4_def example_job_def generateJobId_def
        example_platform_def example_toLowerCase_def latin1_upper_def latin1_lower_def)
  have same: "rok_position (example_remoteok_raw ''Backend Engineer'' ''Acme'')
       = w3_title (example_web3_raw ''Backend Engineer'' ''Acme'')"
    "rok_company (example_remoteok_raw ''Backend Engineer'' ''Acme'')
       = w3_company (example_web3_raw ''Backend Engineer'' ''Acme'')"
    by (simp_all add: example_remoteok_raw_def example_web3_raw_def)
  have one: "fetchAllJobs
        [normalizeRemoteOKJob example_platform (example_remoteok_raw ''Backend Engineer'' ''Acme'')]
        [normalizeWeb3CareerJob example_platform (example_web3_raw ''Backend Engineer'' ''Acme'')]
      = [normalizeRemoteOKJob example_platform (example_remoteok_raw ''Backend Engineer'' ''Acme'')]"
    using fetchAllJobs_keeps_first
      [of _ _ _ _ _ "example_remoteok_raw ''Backend Engineer'' ''Acme''"
          "example_web3_raw ''Backend Engineer'' ''Acme''" example_platform]
      same by blast
  have out: "fetchAllJobs [j1, j2] [j3, j4] = [j1, j2, j4]"
    by (simp add: fetchAllJobs_def ids)
  have dup: "fetchAllJobs_duplicateCount [j1, j2] [j3, j4] = 1"
    by (simp add: fetchAllJobs_duplicateCount_def ids)
  show ?thesis
    using same one out dup unfolding j1_def j2_def j3_def j4_def by blast
qed

text \<open>
  C10, as claimed: the \<open>fetchAllJobs\<close> of \<open>src/fetcher.ts\<close> and the one that removes
  duplicates return the same sequence. They do not when two jobs share an id: here
  RemoteOK lists the same position of the same company twice, and the Web3.Career
  adapter yields nothing.
\<close>

theorem fetchAllJobs_versions_differ:
  "fetchAllJobs
     [normalizeRemoteOKJob example_platform (example_remoteok_raw ''Backend Engineer'' ''Acme''),
      normalizeRemoteOKJob example_platform
        ((example_remoteok_raw ''Backend Engineer'' ''Acme'')
           \<lparr>rok_id := ''1002'', rok_url := ''https://remoteok.com/l/1002''\<rparr>)]
     []
   = [normalizeRemoteOKJob example_platform (example_remoteok_raw ''Backend Engineer'' ''Acme'')]
   \<and> fetchAllJobs_fetcher
     [normalizeRemoteOKJob example_platform (example_remoteok_raw ''Backend Engineer'' ''Acme''),
      normalizeRemoteOKJob example_platform
        ((example_remoteok_raw ''Backend Engineer'' ''Acme'')
           \<lparr>rok_id := ''1002'', rok_url := ''https://remoteok.com/l/1002''\<rparr>)]
   = [normalizeRemoteOKJob example_platform (example_remoteok_raw ''Backend Engineer'' ''Acme''),
      normalizeRemoteOKJob example_platform
        ((example_remoteok_raw ''Backend Engineer'' ''Acme'')
           \<lparr>rok_id := ''1002'', rok_url := ''https://remoteok.com/l/1002''\<rparr>)]
   \<and> fetchAllJobs
     [normalizeRemoteOKJob example_platform (example_remoteok_raw ''Backend Engineer'' ''Acme''),
      normalizeRemoteOKJob example_platform
        ((example_remoteok_raw ''Backend Engineer'' ''Acme'')
           \<lparr>rok_id := ''1002'', rok_url := ''https://remoteok.com/l/1002''\<rparr>)]
     []
   \<noteq> fetchAllJobs_fetcher
     [normalizeRemoteOKJob example_platform (example_remoteok_raw ''Backend Engineer'' ''Acme''),
      normalizeRemoteOKJob example_platform
        ((example_remoteok_raw ''Backend Engineer'' ''Acme'')
           \<lparr>rok_id := ''1002'', rok_url := ''https://remoteok.com/l/1002''\<rparr>)]"
  by (simp add: fetchAllJobs_def fetchAllJobs_fetcher_def fetchFromWeb3Career_fetcher_def
      normalizeRemoteOKJob_def example_remoteok_raw_def Let_def)

text \<open>
  C10, amended. In \<open>src/fetcher.ts\<close> the Web3.Career adapter always yields the empty
  sequence. Given the same RemoteOK sequence (and the empty Web3.Career sequence), the
  two versions of \<open>fetchAllJobs\<close> return the same sequence exactly when no two jobs of
  the input share an id. In general the later version returns a subsequence of what
  \<open>src/fetcher.ts\<close> returns: for each id, the first job with that id.
\<close>

theorem fetchAllJobs_versions:
  "(fetchAllJobs a [] = fetchAllJobs_fetcher a \<longleftrightarrow> distinct (map id' a))
   \<and> subseq (fetchAllJobs a []) (fetchAllJobs_fetcher a)
   \<and> filter (\<lambda>j. id' j = k) (fetchAllJobs a [])
       = take 1 (filter (\<lambda>j. id' j = k) (fetchAllJobs_fetcher a))"
proof -
  have old: "fetchAllJobs_fetcher a = a"
    by (simp add: fetchAllJobs_fetcher_def fetchFromWeb3Career_fetcher_def)
  have dist: "distinct (map id' (fetchAllJobs a []))"
    unfolding fetchAllJobs_def Let_def by (rule fetchAllJobs_loop_distinct) simp_all
  have "fetchAllJobs a [] = a" if "distinct (map id' a)"
    unfolding fetchAllJobs_def Let_def
    using fetchAllJobs_loop_all_distinct [of a "{}" "[]" 0] that by simp
  moreover have "distinct (map id' a)" if "fetchAllJobs a [] = a"
    using dist that by simp
  ultimately have "fetchAllJobs a [] = fetchAllJobs_fetcher a \<longleftrightarrow> distinct (map id' a)"
    unfolding old by blast
  moreover have "subseq (fetchAllJobs a []) (fetchAllJobs_fetcher a)"
    unfolding fetchAllJobs_def old Let_def
    using fetchAllJobs_loop_subseq [of a "{}" "[]" 0] by simp
  moreover have "filter (\<lambda>j. id' j = k) (fetchAllJobs a [])
       = take 1 (filter (\<lambda>j. id' j = k) (fetchAllJobs_fetcher a))"
    unfolding fetchAllJobs_def old Let_def fetchAllJobs_loop_filter_id
    by simp
  ultimately show ?thesis by blast
qed

theorem fetchAllJobs_versions_witness:
  "distinct (map id'
      [normalizeRemoteOKJob example_platform (example_remoteok_raw ''Backend Engineer'' ''Acme''),
       normalizeRemoteOKJob example_platform (example_remoteok_raw ''Data Engineer'' ''Acme'')])
   \<and> fetchAllJobs
        [normalizeRemoteOKJob example_platform (example_remoteok_raw ''Backend Engineer'' ''Acme''),
         normalizeRemoteOKJob example_platform (example_remoteok_raw ''Data Engineer'' ''Acme'')]
        []
      = fetchAllJobs_fetcher
        [normalizeRemoteOKJob example_platform (example_remoteok_raw ''Backend Engineer'' ''Acme''),
         normalizeRemoteOKJob example_platform (example_remoteok_raw ''Data Engineer'' ''Acme'')]"
proof -
  have d: "distinct (map id'
      [normalizeRemoteOKJob example_platform (example_remoteok_raw ''Backend Engineer'' ''Acme''),
       normalizeRemoteOKJob example_platform (example_remoteok_raw ''Data Engineer'' ''Acme'')])"
    by (simp add: normalizeRemoteOKJob_def example_remoteok_raw_def generateJobId_def
        example_platform_def example_toLowerCase_def latin1_upper_def latin1_lower_def Let_def)
  with fetchAllJobs_versions
    [of "[normalizeRemoteOKJob example_platform (example_remoteok_raw ''Backend Engineer'' ''Acme''),
          normalizeRemoteOKJob example_platform (example_remoteok_raw ''Data Engineer'' ''Acme'')]"]
  show ?thesis by blast
qed

section \<open>Properties of the ranking step\<close>

lemma mset_sort_insert: "mset (sort_insert comparefn x ys) = add_mset x (mset ys)"
  by (induction ys) simp_all

lemma mset_stable_sort: "mset (stable_sort comparefn xs) = mset xs"
  by (induction xs) (simp_all add: stable_sort_def mset_sort_insert)

lemma mset_Array_sort: "mset (Array_sort P comparefn xs) = mset xs"
  by (simp add: Array_sort_def Let_def mset_stable_sort)

lemma sortCompare_compareMatches:
  assumes "postedAt (job a) \<noteq> None" "postedAt (job b) \<noteq> None"
  shows "sortCompare compareMatches a b < 0 \<longleftrightarrow>
           (- score a, - (case postedAt (job a) of Some t \<Rightarrow> t | None \<Rightarrow> 0))
             < (- score b, - (case postedAt (job b) of Some t \<Rightarrow> t | None \<Rightarrow> 0))"
    and "sortCompare compareMatches a b = 0 \<longleftrightarrow>
           (- score a, - (case postedAt (job a) of Some t \<Rightarrow> t | None \<Rightarrow> 0))
             = (- score b, - (case postedAt (job b) of Some t \<Rightarrow> t | None \<Rightarrow> 0))"
    and "sortCompare compareMatches a b > 0 \<longleftrightarrow>
           (- score b, - (case postedAt (job b) of Some t \<Rightarrow> t | None \<Rightarrow> 0))
             < (- score a, - (case postedAt (job a) of Some t \<Rightarrow> t | None \<Rightarrow> 0))"
    and "sortCompare compareMatches a b \<le> 0 \<longleftrightarrow>
           (- score a, - (case postedAt (job a) of Some t \<Rightarrow> t | None \<Rightarrow> 0))
             \<le> (- score b, - (case postedAt (job b) of Some t \<Rightarrow> t | None \<Rightarrow> 0))"
    and "compareMatches a b \<noteq> None"
  using assms by (auto simp: sortCompare_def compareMatches_def Let_def)

lemma compareMatches_consistent:
  assumes "\<forall>m \<in> set xs. postedAt (job m) \<noteq> None"
  shows "consistent_comparator compareMatches xs"
  unfolding consistent_comparator_def
proof (intro conjI ballI impI)
  fix a b assume "a \<in> set xs" "b \<in> set xs"
  with assms show "compareMatches a b \<noteq> None"
    by (simp add: sortCompare_compareMatches(5))
next
  fix a assume "a \<in> set xs"
  with assms show "sortCompare compareMatches a a = 0"
    by (simp add: sortCompare_compareMatches(2))
next
  fix a b assume "a \<in> set xs" "b \<in> set xs" "sortCompare compareMatches a b = 0"
  with assms show "sortCompare compareMatches b a = 0"
    by (simp add: sortCompare_compareMatches(2))
next
  fix a b c assume "a \<in> set xs" "b \<in> set xs" "c \<in> set xs"
    "sortCompare compareMatches a b = 0 \<and> sortCompare compareMatches b c = 0"
  with assms show "sortCompare compareMatches a c = 0"
    by (simp add: sortCompare_compareMatches(2))
next
  fix a b c assume "a \<in> set xs" "b \<in> set xs" "c \<in> set xs"
    "sortCompare compareMatches a b < 0 \<and> sortCompare compareMatches b c < 0"
  with assms have v: "postedAt (job a) \<noteq> None" "postedAt (job b) \<noteq> None" "postedAt (job c) \<noteq> None"
    and "sortCompare compareMatches a b < 0" "sortCompare compareMatches b c < 0"
    by simp_all
  then have "(- score a, - (case postedAt (job a) of Some t \<Rightarrow> t | None \<Rightarrow> 0))
             < (- score b, - (case postedAt (job b) of Some t \<Rightarrow> t | None \<Rightarrow> 0))"
    "(- score b, - (case postedAt (job b) of Some t \<Rightarrow> t | None \<Rightarrow> 0))
             < (- score c, - (case postedAt (job c) of Some t \<Rightarrow> t | None \<Rightarrow> 0))"
    by (simp_all add: sortCompare_compareMatches(1))
  then have "(- score a, - (case postedAt (job a) of Some t \<Rightarrow> t | None \<Rightarrow> 0))
             < (- score c, - (case postedAt (job c) of Some t \<Rightarrow> t | None \<Rightarrow> 0))"
    by (rule less_trans)
  with v show "sortCompare compareMatches a c < 0"
    by (simp add: sortCompare_compareMatches(1))
next
  fix a b c assume "a \<in> set xs" "b \<in> set xs" "c \<in> set xs"
    "sortCompare compareMatches a b > 0 \<and> sortCompare compareMatches b c > 0"
  with assms have v: "postedAt (job a) \<noteq> None" "postedAt (job b) \<noteq> None" "postedAt (job c) \<noteq> None"
    and "sortCompare compareMatches a b > 0" "sortCompare compareMatches b c > 0"
    by simp_all
  then have "(- score b, - (case postedAt (job b) of Some t \<Rightarrow> t | None \<Rightarrow> 0))
             < (- score a, - (case postedAt (job a) of Some t \<Rightarrow> t | None \<Rightarrow> 0))"
    "(- score c, - (case postedAt (job c) of Some t \<Rightarrow> t | None \<Rightarrow> 0))
             < (- score b, - (case postedAt (job b) of Some t \<Rightarrow> t | None \<Rightarrow> 0))"
    by (simp_all add: sortCompare_compareMatches(3))
  then have "(- score c, - (case postedAt (job c) of Some t \<Rightarrow> t | None \<Rightarrow> 0))
             < (- score a, - (case postedAt (job a) of Some t \<Rightarrow> t | None \<Rightarrow> 0))"
    by (rule less_trans [rotated])
  with v show "sortCompare compareMatches a c > 0"
    by (simp add: sortCompare_compareMatches(3))
qed

lemma inconsistent_comparatorI:
  "a \<in> set xs \<Longrightarrow> b \<in> set xs \<Longrightarrow> comparefn a b = None \<Longrightarrow> \<not> consistent_comparator comparefn xs"
  unfolding consistent_comparator_def by blast

lemma sort_insert_insort_key:
  assumes "postedAt (job x) \<noteq> None" "\<forall>y \<in> set ys. postedAt (job y) \<noteq> None"
  shows "sort_insert compareMatches x ys =
           insort_key (\<lambda>m. (- score m, - (case postedAt (job m) of Some t \<Rightarrow> t | None \<Rightarrow> 0))) x ys"
  using assms by (induction ys) (simp_all add: sortCompare_compareMatches(4))

lemma stable_sort_sort_key:
  assumes "\<forall>y \<in> set xs. postedAt (job y) \<noteq> None"
  shows "stable_sort compareMatches xs =
           sort_key (\<lambda>m. (- score m, - (case postedAt (job m) of Some t \<Rightarrow> t | None \<Rightarrow> 0))) xs"
  using assms
proof (induction xs)
  case Nil
  show ?case by (simp add: stable_sort_def)
next
  case (Cons x xs)
  then have IH: "stable_sort compareMatches xs =
           sort_key (\<lambda>m. (- score m, - (case postedAt (job m) of Some t \<Rightarrow> t | None \<Rightarrow> 0))) xs"
    by simp
  have "\<forall>y \<in> set (sort_key (\<lambda>m. (- score m, - (case postedAt (job m) of Some t \<Rightarrow> t | None \<Rightarrow> 0))) xs).
          postedAt (job y) \<noteq> None"
    using Cons.prems by simp
  then show ?case
    using Cons.prems IH
    by (simp add: stable_sort_def sort_key_def sort_insert_insort_key)
qed

text \<open>
  C3, amended. For every sequence of scored jobs, the ranking step returns the first 10
  elements of a rearrangement of the input, and all of its elements when the input has
  at most 10. When the \<open>postedAt\<close> of every job is a valid date, this rearrangement is
  the input sorted by descending score, equal scores by descending \<open>postedAt\<close> (the later
  first), elements equal on both keys in their original order.
\<close>

theorem matchJobs_rank_sorted:
  "(let ordered = Array_sort P compareMatches scored; top = matchJobs_rank P scored in
      mset ordered = mset scored
      \<and> top = take 10 ordered
      \<and> length top = min 10 (length scored)
      \<and> (length scored \<le> 10 \<longrightarrow> top = ordered)
      \<and> ((\<forall>m \<in> set scored. postedAt (job m) \<noteq> None) \<longrightarrow>
           sorted_wrt (\<lambda>a b. score a > score b
                \<or> (score a = score b
                    \<and> (\<exists>ta tb. postedAt (job a) = Some ta \<and> postedAt (job b) = Some tb \<and> tb \<le> ta)))
              ordered
           \<and> (\<forall>s t. filter (\<lambda>m. score m = s \<and> postedAt (job m) = Some t) ordered
                   = filter (\<lambda>m. score m = s \<and> postedAt (job m) = Some t) scored)))"
proof -
  define key :: "MatchResult \<Rightarrow> int \<times> int" where
    "key = (\<lambda>m. (- score m, - (case postedAt (job m) of Some t \<Rightarrow> t | None \<Rightarrow> 0)))"
  define ordered where "ordered = Array_sort P compareMatches scored"
  have perm: "mset ordered = mset scored"
    by (simp add: ordered_def mset_Array_sort)
  have len: "length ordered = length scored"
    using perm by (metis size_mset)
  have top: "matchJobs_rank P scored = take 10 ordered"
    by (simp add: matchJobs_rank_def TOP_MATCHES_def ordered_def)
  have dated: "sorted_wrt (\<lambda>a b. score a > score b
                \<or> (score a = score b
                    \<and> (\<exists>ta tb. postedAt (job a) = Some ta \<and> postedAt (job b) = Some tb \<and> tb \<le> ta)))
              ordered
           \<and> (\<forall>s t. filter (\<lambda>m. score m = s \<and> postedAt (job m) = Some t) ordered
                   = filter (\<lambda>m. score m = s \<and> postedAt (job m) = Some t) scored)"
    if valid0: "\<forall>m \<in> set scored. postedAt (job m) \<noteq> None"
  proof -
    have eq: "ordered = sort_key key scored"
      unfolding ordered_def key_def Array_sort_def
      using compareMatches_consistent [OF valid0] stable_sort_sort_key [OF valid0] by simp
    have valid: "postedAt (job m) \<noteq> None" if "m \<in> set ordered" for m
      using that valid0 by (simp add: eq)
    have "sorted (map key ordered)"
      by (simp add: eq sorted_sort_key)
    then have "sorted_wrt (\<lambda>a b. key a \<le> key b) ordered"
      by (simp add: sorted_map)
    then have srt: "sorted_wrt (\<lambda>a b. score a > score b
                \<or> (score a = score b
                    \<and> (\<exists>ta tb. postedAt (job a) = Some ta \<and> postedAt (job b) = Some tb \<and> tb \<le> ta)))
              ordered"
    proof (rule sorted_wrt_mono_rel [rotated])
      fix a b
      assume "a \<in> set ordered" "b \<in> set ordered" "key a \<le> key b"
      then show "score a > score b
                \<or> (score a = score b
                    \<and> (\<exists>ta tb. postedAt (job a) = Some ta \<and> postedAt (job b) = Some tb \<and> tb \<le> ta))"
        using valid [of a] valid [of b] by (auto simp: key_def)
    qed
    have stable: "filter (\<lambda>m. score m = s \<and> postedAt (job m) = Some t) ordered
                   = filter (\<lambda>m. score m = s \<and> postedAt (job m) = Some t) scored" for s t
    proof -
      have "filter (\<lambda>m. score m = s \<and> postedAt (job m) = Some t) ordered
            = filter (\<lambda>m. key m = (- s, - t)) ordered"
        by (rule filter_cong) (use valid in \<open>force simp: key_def\<close>)+
      also have "\<dots> = filter (\<lambda>m. key m = (- s, - t)) scored"
        unfolding eq by (rule sort_key_stable)
      also have "\<dots> = filter (\<lambda>m. score m = s \<and> postedAt (job m) = Some t) scored"
        by (rule filter_cong) (use valid0 in \<open>force simp: key_def\<close>)+
      finally show ?thesis .
    qed
    from srt stable show ?thesis by blast
  qed
  show ?thesis
    unfolding Let_def ordered_def [symmetric]
    using perm top len dated by (auto simp: min_def)
qed

text \<open>
  C3, as claimed (for every sequence of scored jobs, equal scores are ordered by
  descending \<open>postedAt\<close>). A job whose date string did not parse has an invalid
  \<open>postedAt\<close>; compared with it, every job of the same score counts as equal. Here the
  three jobs have the same score and the undated one stands between the other two: the
  array is returned as it is, the older job before the newer one.
\<close>

theorem matchJobs_rank_invalid_date:
  "matchJobs_rank example_platform
     [example_match ''Older'' 80 (Some 1704153600000),
      example_match ''Undated'' 80 None,
      example_match ''Newer'' 80 (Some 1704412800000)]
   = [example_match ''Older'' 80 (Some 1704153600000),
      example_match ''Undated'' 80 None,
      example_match ''Newer'' 80 (Some 1704412800000)]
   \<and> score (example_match ''Older'' 80 (Some 1704153600000))
       = score (example_match ''Newer'' 80 (Some 1704412800000))
   \<and> postedAt (job (example_match ''Older'' 80 (Some 1704153600000))) = Some 1704153600000
   \<and> postedAt (job (example_match ''Newer'' 80 (Some 1704412800000))) = Some 1704412800000
   \<and> (1704153600000 :: int) < 1704412800000"
proof -
  have "compareMatches (example_match ''Older'' 80 (Some 1704153600000))
          (example_match ''Undated'' 80 None) = None"
    by (simp add: compareMatches_def example_match_def)
  then have "\<not> consistent_comparator compareMatches
     [example_match ''Older'' 80 (Some 1704153600000),
      example_match ''Undated'' 80 None,
      example_match ''Newer'' 80 (Some 1704412800000)]"
    by (rule inconsistent_comparatorI [rotated 2]) simp_all
  then show ?thesis
    by (simp add: matchJobs_rank_def Array_sort_def TOP_MATCHES_def example_platform_def
        example_match_def)
qed

theorem matchJobs_rank_sorted_witness:
  "postedAt (job (example_match ''Older'' 80 (Some 1704153600000))) \<noteq> None
   \<and> postedAt (job (example_match ''Best'' 95 (Some 1704067200000))) \<noteq> None
   \<and> postedAt (job (example_match ''Newer'' 80 (Some 1704412800000))) \<noteq> None
   \<and> length [example_match ''Older'' 80 (Some 1704153600000),
      example_match ''Best'' 95 (Some 1704067200000),
      example_match ''Newer'' 80 (Some 1704412800000)] \<le> 10
   \<and> matchJobs_rank example_platform
     [example_match ''Older'' 80 (Some 1704153600000),
      example_match ''Best'' 95 (Some 1704067200000),
      example_match ''Newer'' 80 (Some 1704412800000)]
   = [example_match ''Best'' 95 (Some 1704067200000),
      example_match ''Newer'' 80 (Some 1704412800000),
      example_match ''Older'' 80 (Some 1704153600000)]
   \<and> length (matchJobs_rank example_platform
     [example_match ''Older'' 80 (Some 1704153600000),
      example_match ''Best'' 95 (Some 1704067200000),
      example_match ''Newer'' 80 (Some 1704412800000)]) = min 10 3"
proof -
  define xs where "xs = [example_match ''Older'' 80 (Some 1704153600000),
      example_match ''Best'' 95 (Some 1704067200000),
      example_match ''Newer'' 80 (Some 1704412800000)]"
  have h: "\<forall>m \<in> set xs. postedAt (job m) \<noteq> None"
    by (simp add: xs_def example_match_def)
  have c: "consistent_comparator compareMatches xs"
    by (rule compareMatches_consistent [OF h])
  have r: "matchJobs_rank example_platform xs
   = [example_match ''Best'' 95 (Some 1704067200000),
      example_match ''Newer'' 80 (Some 1704412800000),
      example_match ''Older'' 80 (Some 1704153600000)]"
    unfolding matchJobs_rank_def Array_sort_def using c
    by (simp add: xs_def stable_sort_def sortCompare_def compareMatches_def
      example_match_def TOP_MATCHES_def)
  have "length (matchJobs_rank example_platform xs) = min 10 (length xs)"
    using matchJobs_rank_sorted [of example_platform xs] unfolding Let_def by blast
  then have "length (matchJobs_rank example_platform xs) = min 10 3"
    by (simp add: xs_def)
  with h r show ?thesis
    unfolding xs_def by simp
qed

section \<open>Properties of the retry loop and the adapters\<close>

lemma fetchWithRetry_loop_attempts:
  "attempt \<le> MAX_RETRIES + 1 \<Longrightarrow>
     fst (snd (fetchWithRetry_loop fetch attempt slept)) \<le> MAX_RETRIES + 1"
proof (induction fetch attempt slept rule: fetchWithRetry_loop.induct)
  case (1 fetch attempt slept)
  show ?case
  proof (cases "attempt \<le> MAX_RETRIES")
    case False
    with "1.prems" show ?thesis
      by (subst fetchWithRetry_loop.simps) simp
  next
    case True
    show ?thesis
    proof (cases "fetch attempt")
      case (Inl err)
      with True "1.IH"(1) [OF True Inl] show ?thesis
        by (subst fetchWithRetry_loop.simps) simp
    next
      case (Inr response)
      with True "1.IH"(2) [OF True Inr] show ?thesis
        by (subst fetchWithRetry_loop.simps) simp
    qed
  qed
qed

lemma fetchWithRetry_loop_all_fail:
  "\<forall>k. attempt \<le> k \<and> k \<le> MAX_RETRIES \<longrightarrow> \<not> (\<exists>r. fetch k = Inr r \<and> ok r) \<Longrightarrow>
   attempt \<le> MAX_RETRIES + 1 \<Longrightarrow>
     fst (fetchWithRetry_loop fetch attempt slept) = None
     \<and> fst (snd (fetchWithRetry_loop fetch attempt slept)) = MAX_RETRIES + 1"
proof (induction fetch attempt slept rule: fetchWithRetry_loop.induct)
  case (1 fetch attempt slept)
  show ?case
  proof (cases "attempt \<le> MAX_RETRIES")
    case False
    with "1.prems" show ?thesis
      by (subst (1 2) fetchWithRetry_loop.simps) simp
  next
    case True
    have rest: "\<forall>k. attempt + 1 \<le> k \<and> k \<le> MAX_RETRIES \<longrightarrow> \<not> (\<exists>r. fetch k = Inr r \<and> ok r)"
    proof (intro allI impI)
      fix k
      assume "attempt + 1 \<le> k \<and> k \<le> MAX_RETRIES"
      then have "attempt \<le> k \<and> k \<le> MAX_RETRIES"
        by simp
      with "1.prems"(1) show "\<not> (\<exists>r. fetch k = Inr r \<and> ok r)"
        by blast
    qed
    have le: "attempt + 1 \<le> MAX_RETRIES + 1"
      using True by simp
    show ?thesis
    proof (cases "fetch attempt")
      case (Inl err)
      with True "1.IH"(1) [OF True Inl rest le] show ?thesis
        by (subst (1 2) fetchWithRetry_loop.simps) simp
    next
      case (Inr response)
      then have "\<not> ok response"
        using "1.prems"(1) True by auto
      with Inr True "1.IH"(2) [OF True Inr _ rest le] show ?thesis
        by (subst (1 2) fetchWithRetry_loop.simps) simp
    qed
  qed
qed

lemma fetchWithRetry_loop_first_success:
  "attempt \<le> k \<Longrightarrow> k \<le> MAX_RETRIES \<Longrightarrow> fetch k = Inr r \<Longrightarrow> ok r \<Longrightarrow>
   \<forall>i. attempt \<le> i \<and> i < k \<longrightarrow> \<not> (\<exists>r'. fetch i = Inr r' \<and> ok r') \<Longrightarrow>
     fst (fetchWithRetry_loop fetch attempt slept) = Some r
     \<and> fst (snd (fetchWithRetry_loop fetch attempt slept)) = k + 1"
proof (induction fetch attempt slept rule: fetchWithRetry_loop.induct)
  case (1 fetch attempt slept)
  have True: "attempt \<le> MAX_RETRIES"
    using "1.prems" by simp
  show ?case
  proof (cases "attempt = k")
    case eq: True
    with "1.prems" True show ?thesis
      by (subst (1 2) fetchWithRetry_loop.simps) simp
  next
    case False
    then have lt: "attempt < k" "attempt + 1 \<le> k"
      using "1.prems"(1) by simp_all
    have rest: "\<forall>i. attempt + 1 \<le> i \<and> i < k \<longrightarrow> \<not> (\<exists>r'. fetch i = Inr r' \<and> ok r')"
    proof (intro allI impI)
      fix i
      assume "attempt + 1 \<le> i \<and> i < k"
      then have "attempt \<le> i \<and> i < k"
        by simp
      with "1.prems"(5) show "\<not> (\<exists>r'. fetch i = Inr r' \<and> ok r')"
        by blast
    qed
    show ?thesis
    proof (cases "fetch attempt")
      case (Inl err)
      with True "1.IH"(1) [OF True Inl lt(2) "1.prems"(2,3,4) rest] show ?thesis
        by (subst (1 2) fetchWithRetry_loop.simps) simp
    next
      case (Inr response)
      then have no: "\<not> ok response"
        using "1.prems"(5) lt(1) by auto
      with Inr True "1.IH"(2) [OF True Inr no lt(2) "1.prems"(2,3,4) rest] show ?thesis
        by (subst (1 2) fetchWithRetry_loop.simps) simp
    qed
  qed
qed

text \<open>
  C6. Whatever the outcomes of the attempts, \<open>fetchWithRetry\<close> calls \<open>fetch\<close> at most
  \<open>MAX_RETRIES + 1 = 3\<close> times. It returns the first successful response among these
  attempts; when every attempt fails (a response that is not \<open>ok\<close>, a timeout or a
  transport error) it returns \<open>null\<close>, and the adapter then resolves with the empty list.
  Neither adapter ever lets an error reach its caller.
\<close>

theorem fetchWithRetry_bounded:
  "fetchWithRetry_attempts fetch \<le> MAX_RETRIES + 1
   \<and> MAX_RETRIES + 1 = 3
   \<and> (k \<le> MAX_RETRIES \<and> fetch k = Inr r \<and> ok r
        \<and> (\<forall>i < k. \<not> (\<exists>r'. fetch i = Inr r' \<and> ok r'))
      \<longrightarrow> fetchWithRetry fetch = Some r \<and> fetchWithRetry_attempts fetch = k + 1)
   \<and> ((\<forall>i \<le> MAX_RETRIES. \<not> (\<exists>r'. fetch i = Inr r' \<and> ok r'))
      \<longrightarrow> fetchWithRetry fetch = None
          \<and> fetchWithRetry_attempts fetch = MAX_RETRIES + 1
          \<and> fetchFromRemoteOK P fetch save_rok = Inr []
          \<and> fetchFromWeb3Career P token fetch save_w3 = Inr [])
   \<and> (\<exists>jobs. fetchFromRemoteOK P fetch save_rok = Inr jobs)
   \<and> (\<exists>jobs. fetchFromWeb3Career P token fetch save_w3 = Inr jobs)"
proof -
  have a: "fetchWithRetry_attempts fetch \<le> MAX_RETRIES + 1"
    unfolding fetchWithRetry_attempts_def by (rule fetchWithRetry_loop_attempts) simp
  have b: "MAX_RETRIES + 1 = 3"
    by (simp add: MAX_RETRIES_def)
  have c: "fetchWithRetry fetch = Some r \<and> fetchWithRetry_attempts fetch = k + 1"
    if "k \<le> MAX_RETRIES" "fetch k = Inr r" "ok r" "\<forall>i < k. \<not> (\<exists>r'. fetch i = Inr r' \<and> ok r')"
    unfolding fetchWithRetry_def fetchWithRetry_attempts_def
    using fetchWithRetry_loop_first_success [of 0 k fetch r 0] that by simp
  have d: "fetchWithRetry fetch = None \<and> fetchWithRetry_attempts fetch = MAX_RETRIES + 1"
    if "\<forall>i \<le> MAX_RETRIES. \<not> (\<exists>r'. fetch i = Inr r' \<and> ok r')"
    unfolding fetchWithRetry_def fetchWithRetry_attempts_def
    using fetchWithRetry_loop_all_fail [of 0 fetch 0] that by simp
  have e: "fetchFromRemoteOK P fetch save_rok = Inr []
           \<and> fetchFromWeb3Career P token fetch save_w3 = Inr []"
    if "fetchWithRetry fetch = None"
    using that by (simp add: fetchFromRemoteOK_def fetchFromWeb3Career_def)
  have f: "\<exists>jobs. fetchFromRemoteOK P fetch save_rok = Inr jobs"
    by (simp add: fetchFromRemoteOK_def split: option.split sum.split)
  have g: "\<exists>jobs. fetchFromWeb3Career P token fetch save_w3 = Inr jobs"
    by (simp add: fetchFromWeb3Career_def split: option.split sum.split)
  show ?thesis
    using a b c d e f g by blast
qed

theorem fetchWithRetry_bounded_witness:
  "fetchWithRetry
     (\<lambda>n. if n = 0 then Inl ''The operation was aborted due to timeout''
          else if n = 1 then Inr \<lparr>ok = False, status = 503, json_body = Inl ''Unexpected token''\<rparr>
          else Inr \<lparr>ok = True, status = 200, json_body = Inr (JArr [])\<rparr>)
     = Some \<lparr>ok = True, status = 200, json_body = Inr (JArr [])\<rparr>
   \<and> fetchWithRetry_attempts
     (\<lambda>n. if n = 0 then Inl ''The operation was aborted due to timeout''
          else if n = 1 then Inr \<lparr>ok = False, status = 503, json_body = Inl ''Unexpected token''\<rparr>
          else Inr \<lparr>ok = True, status = 200, json_body = Inr (JArr [])\<rparr>)
     = 3
   \<and> fetchWithRetry (\<lambda>n. Inr \<lparr>ok = False, status = 500, json_body = Inr JNull\<rparr>) = None
   \<and> fetchWithRetry_attempts (\<lambda>n. Inr \<lparr>ok = False, status = 500, json_body = Inr JNull\<rparr>) = 3
   \<and> fetchFromRemoteOK example_platform
        (\<lambda>n. Inr \<lparr>ok = False, status = 500, json_body = Inr JNull\<rparr>) (\<lambda>d. None) = Inr []
   \<and> fetchFromWeb3Career example_platform (Some ''secret'')
        (\<lambda>n. Inr \<lparr>ok = False, status = 500, json_body = Inr JNull\<rparr>) (\<lambda>d. None) = Inr []"
proof -
  have two: "(2::nat) \<le> MAX_RETRIES"
    by (simp add: MAX_RETRIES_def)
  have below: "i < 2 \<longleftrightarrow> i = 0 \<or> i = 1" for i :: nat
    by auto
  show ?thesis
    using two
      fetchWithRetry_bounded
        [of "\<lambda>n. if n = 0 then Inl ''The operation was aborted due to timeout''
              else if n = 1 then Inr \<lparr>ok = False, status = 503, json_body = Inl ''Unexpected token''\<rparr>
              else Inr \<lparr>ok = True, status = 200, json_body = Inr (JArr [])\<rparr>"
            2 "\<lparr>ok = True, status = 200, json_body = Inr (JArr [])\<rparr>"]
      fetchWithRetry_bounded
        [of "\<lambda>n. Inr \<lparr>ok = False, status = 500, json_body = Inr JNull\<rparr>"
            0 "\<lparr>ok = True, status = 200, json_body = Inr (JArr [])\<rparr>"
            example_platform "\<lambda>d. None" "Some ''secret''" "\<lambda>d. None"]
    by (simp add: below MAX_RETRIES_def)
qed

section \<open>Properties of normalization\<close>

lemma example_remoteok_parse:
  "RemoteOKJobSchema example_platform (JObj (example_remoteok_obj ''Backend Engineer'' ''Acme''))
     = Some (example_remoteok_raw ''Backend Engineer'' ''Acme'')"
  by (simp add: RemoteOKJobSchema_def example_remoteok_obj_def example_remoteok_raw_def
      example_platform_def property_def z_string_def z_min_def z_url_def z_default_def)

lemma example_web3_parse:
  "Web3CareerJobSchema example_platform (JObj (example_web3_obj ''Backend Engineer'' ''Acme''))
     = Some (example_web3_raw ''Backend Engineer'' ''Acme'')"
  by (simp add: Web3CareerJobSchema_def example_web3_obj_def example_web3_raw_def
      example_platform_def property_def z_string_def z_number_def z_min_def z_url_def
      z_default_def z_nullish_def)

lemma str_or_nonempty: "b \<noteq> [] \<Longrightarrow> str_or a b \<noteq> []"
  by (simp add: str_or_def)

text \<open>
  C7. For every record of either schema's type (so for every record a schema accepts),
  the job's \<open>salary.raw\<close> and \<open>salary.currency\<close> are derived, and not empty, exactly
  when its salary minimum or maximum is positive; otherwise both are the empty string.
  A record with minimum 0 and maximum 0 yields two empty strings.
\<close>

theorem salary_strings_derived:
  "(let s = salary (normalizeRemoteOKJob P r) in
      if min' s > 0 \<or> max' s > 0
      then currency s = ''USD''
           \<and> raw s = ''$'' @ Number_toString P (min' s) @ ''-$'' @ Number_toString P (max' s)
           \<and> currency s \<noteq> [] \<and> raw s \<noteq> []
      else currency s = [] \<and> raw s = [])
   \<and> (let s = salary (normalizeWeb3CareerJob P w);
           cur = (case w3_salary_currency w of Value c \<Rightarrow> c | _ \<Rightarrow> [])
       in if min' s > 0 \<or> max' s > 0
          then currency s = (if cur = [] then ''USD'' else cur)
               \<and> raw s = (if cur = [] then ''$'' else cur) @ Number_toString P (min' s) @ ''-''
                          @ (if cur = [] then ''$'' else cur) @ Number_toString P (max' s)
               \<and> currency s \<noteq> [] \<and> raw s \<noteq> []
          else currency s = [] \<and> raw s = [])
   \<and> (rok_salary_min r = 0 \<and> rok_salary_max r = 0
        \<longrightarrow> raw (salary (normalizeRemoteOKJob P r)) = []
            \<and> currency (salary (normalizeRemoteOKJob P r)) = [])
   \<and> (min' (salary (normalizeWeb3CareerJob P w)) = 0 \<and> max' (salary (normalizeWeb3CareerJob P w)) = 0
        \<longrightarrow> raw (salary (normalizeWeb3CareerJob P w)) = []
            \<and> currency (salary (normalizeWeb3CareerJob P w)) = [])"
proof -
  have rok: "(let s = salary (normalizeRemoteOKJob P r) in
      if min' s > 0 \<or> max' s > 0
      then currency s = ''USD''
           \<and> raw s = ''$'' @ Number_toString P (min' s) @ ''-$'' @ Number_toString P (max' s)
           \<and> currency s \<noteq> [] \<and> raw s \<noteq> []
      else currency s = [] \<and> raw s = [])"
    by (simp add: normalizeRemoteOKJob_def Let_def)
  have w3: "(let s = salary (normalizeWeb3CareerJob P w);
           cur = (case w3_salary_currency w of Value c \<Rightarrow> c | _ \<Rightarrow> [])
       in if min' s > 0 \<or> max' s > 0
          then currency s = (if cur = [] then ''USD'' else cur)
               \<and> raw s = (if cur = [] then ''$'' else cur) @ Number_toString P (min' s) @ ''-''
                          @ (if cur = [] then ''$'' else cur) @ Number_toString P (max' s)
               \<and> currency s \<noteq> [] \<and> raw s \<noteq> []
          else currency s = [] \<and> raw s = [])"
    by (simp add: normalizeWeb3CareerJob_def normalizeWeb3CareerSalary_def Let_def str_or_def)
  have rok0: "raw (salary (normalizeRemoteOKJob P r)) = []
            \<and> currency (salary (normalizeRemoteOKJob P r)) = []"
    if "rok_salary_min r = 0 \<and> rok_salary_max r = 0"
    using that by (simp add: normalizeRemoteOKJob_def Let_def)
  have w30: "raw (salary (normalizeWeb3CareerJob P w)) = []
            \<and> currency (salary (normalizeWeb3CareerJob P w)) = []"
    if "min' (salary (normalizeWeb3CareerJob P w)) = 0 \<and> max' (salary (normalizeWeb3CareerJob P w)) = 0"
    using that by (simp add: normalizeWeb3CareerJob_def normalizeWeb3CareerSalary_def Let_def)
  show ?thesis
    using rok w3 rok0 w30 by blast
qed

theorem salary_strings_derived_witness:
  "rok_salary_min (example_remoteok_raw ''Backend Engineer'' ''Acme'') = 0
   \<and> rok_salary_max (example_remoteok_raw ''Backend Engineer'' ''Acme'') = 0
   \<and> raw (salary (normalizeRemoteOKJob example_platform
             (example_remoteok_raw ''Backend Engineer'' ''Acme''))) = []
   \<and> currency (salary (normalizeRemoteOKJob example_platform
             (example_remoteok_raw ''Backend Engineer'' ''Acme''))) = []
   \<and> salary (normalizeRemoteOKJob example_platform
        ((example_remoteok_raw ''Backend Engineer'' ''Acme'')
           \<lparr>rok_salary_min := 90000, rok_salary_max := 120000\<rparr>))
      = \<lparr>min' = 90000, max' = 120000, currency = ''USD'', raw = ''$90000-$120000''\<rparr>
   \<and> salary (normalizeWeb3CareerJob example_platform
        ((example_web3_raw ''Backend Engineer'' ''Acme'')
           \<lparr>w3_salary_max_value := Value (Inl 150000), w3_salary_currency := Value ''EUR''\<rparr>))
      = \<lparr>min' = 0, max' = 150000, currency = ''EUR'', raw = ''EUR0-EUR150000''\<rparr>"
  using salary_strings_derived
      [of example_platform "example_remoteok_raw ''Backend Engineer'' ''Acme''"
          "(example_web3_raw ''Backend Engineer'' ''Acme'')
             \<lparr>w3_salary_max_value := Value (Inl 150000), w3_salary_currency := Value ''EUR''\<rparr>"]
    salary_strings_derived
      [of example_platform "(example_remoteok_raw ''Backend Engineer'' ''Acme'')
           \<lparr>rok_salary_min := 90000, rok_salary_max := 120000\<rparr>"
          "example_web3_raw ''Backend Engineer'' ''Acme''"]
  by (simp add: example_remoteok_raw_def example_web3_raw_def example_platform_def
      normalizeRemoteOKJob_def normalizeWeb3CareerJob_def normalizeWeb3CareerSalary_def
      Number_of_def num_or_def str_or_def Let_def)


lemma RemoteOKJobSchema_defaults:
  assumes "RemoteOKJobSchema P (JObj obj) = Some r"
  shows "property obj ''salary_min'' = None \<Longrightarrow> rok_salary_min r = 0"
    and "property obj ''salary_max'' = None \<Longrightarrow> rok_salary_max r = 0"
    and "property obj ''tags'' = None \<Longrightarrow> rok_tags r = []"
  using assms
  by (auto simp: RemoteOKJobSchema_def z_default_def split: Option.bind_splits)

lemma Web3CareerJobSchema_defaults:
  assumes "Web3CareerJobSchema P (JObj obj) = Some w"
  shows "property obj ''is_remote'' = None \<Longrightarrow> w3_is_remote w = False"
    and "property obj ''salary_min_value'' = None \<Longrightarrow> w3_salary_min_value w = Undefined"
    and "property obj ''salary_max_value'' = None \<Longrightarrow> w3_salary_max_value w = Undefined"
    and "property obj ''tags'' = None \<Longrightarrow> w3_tags w = []"
  using assms
  by (auto simp: Web3CareerJobSchema_def z_default_def z_nullish_def split: Option.bind_splits)

text \<open>
  C8, amended. For every item that the Web3.Career schema accepts and that has no
  \<open>is_remote\<close>, the job's \<open>remote\<close> is false. The RemoteOK schema declares no boolean
  flag, and every RemoteOK job has \<open>remote = true\<close>. For both adapters an absent salary
  property gives the salary value 0 and an absent tag list gives no skills.
\<close>

theorem absent_fields_default:
  "(RemoteOKJobSchema P (JObj obj) = Some r \<longrightarrow>
      remote (normalizeRemoteOKJob P r) = True
      \<and> (property obj ''salary_min'' = None \<longrightarrow> min' (salary (normalizeRemoteOKJob P r)) = 0)
      \<and> (property obj ''salary_max'' = None \<longrightarrow> max' (salary (normalizeRemoteOKJob P r)) = 0)
      \<and> (property obj ''tags'' = None \<longrightarrow> skills (normalizeRemoteOKJob P r) = []))
   \<and> (Web3CareerJobSchema P (JObj obj) = Some w \<longrightarrow>
      (property obj ''is_remote'' = None \<longrightarrow> remote (normalizeWeb3CareerJob P w) = False)
      \<and> (property obj ''salary_min_value'' = None
            \<longrightarrow> min' (salary (normalizeWeb3CareerJob P w)) = 0)
      \<and> (property obj ''salary_max_value'' = None
            \<longrightarrow> max' (salary (normalizeWeb3CareerJob P w)) = 0)
      \<and> (property obj ''tags'' = None \<longrightarrow> skills (normalizeWeb3CareerJob P w) = []))"
proof (intro conjI impI)
  assume a: "RemoteOKJobSchema P (JObj obj) = Some r"
  show "remote (normalizeRemoteOKJob P r) = True"
    by (simp add: normalizeRemoteOKJob_def Let_def)
  show "min' (salary (normalizeRemoteOKJob P r)) = 0" if "property obj ''salary_min'' = None"
    using RemoteOKJobSchema_defaults(1) [OF a that] by (simp add: normalizeRemoteOKJob_def Let_def)
  show "max' (salary (normalizeRemoteOKJob P r)) = 0" if "property obj ''salary_max'' = None"
    using RemoteOKJobSchema_defaults(2) [OF a that] by (simp add: normalizeRemoteOKJob_def Let_def)
  show "skills (normalizeRemoteOKJob P r) = []" if "property obj ''tags'' = None"
    using RemoteOKJobSchema_defaults(3) [OF a that] by (simp add: normalizeRemoteOKJob_def Let_def)
next
  assume a: "Web3CareerJobSchema P (JObj obj) = Some w"
  show "remote (normalizeWeb3CareerJob P w) = False" if "property obj ''is_remote'' = None"
    using Web3CareerJobSchema_defaults(1) [OF a that] by (simp add: normalizeWeb3CareerJob_def)
  show "min' (salary (normalizeWeb3CareerJob P w)) = 0" if "property obj ''salary_min_value'' = None"
    using Web3CareerJobSchema_defaults(2) [OF a that]
    by (simp add: normalizeWeb3CareerJob_def normalizeWeb3CareerSalary_def Let_def
        Number_of_def num_or_def)
  show "max' (salary (normalizeWeb3CareerJob P w)) = 0" if "property obj ''salary_max_value'' = None"
    using Web3CareerJobSchema_defaults(3) [OF a that]
    by (simp add: normalizeWeb3CareerJob_def normalizeWeb3CareerSalary_def Let_def
        Number_of_def num_or_def)
  show "skills (normalizeWeb3CareerJob P w) = []" if "property obj ''tags'' = None"
    using Web3CareerJobSchema_defaults(4) [OF a that] by (simp add: normalizeWeb3CareerJob_def)
qed

text \<open>
  C8, as claimed (for every adapter, a record without the boolean flag gives a job that
  is not remote). The RemoteOK item below has five properties, none of them a flag; the
  schema accepts it and the job is remote.
\<close>

theorem remoteok_flag_absent_remote_true:
  "RemoteOKJobSchema example_platform (JObj (example_remoteok_obj ''Backend Engineer'' ''Acme''))
     = Some (example_remoteok_raw ''Backend Engineer'' ''Acme'')
   \<and> map fst (example_remoteok_obj ''Backend Engineer'' ''Acme'')
       = [''id'', ''position'', ''company'', ''url'', ''date'']
   \<and> remote (normalizeRemoteOKJob example_platform
         (example_remoteok_raw ''Backend Engineer'' ''Acme'')) = True"
  using example_remoteok_parse
  by (simp add: example_remoteok_obj_def normalizeRemoteOKJob_def Let_def)

theorem absent_fields_default_witness:
  "RemoteOKJobSchema example_platform (JObj (example_remoteok_obj ''Backend Engineer'' ''Acme''))
     = Some (example_remoteok_raw ''Backend Engineer'' ''Acme'')
   \<and> property (example_remoteok_obj ''Backend Engineer'' ''Acme'') ''salary_min'' = None
   \<and> property (example_remoteok_obj ''Backend Engineer'' ''Acme'') ''salary_max'' = None
   \<and> property (example_remoteok_obj ''Backend Engineer'' ''Acme'') ''tags'' = None
   \<and> min' (salary (normalizeRemoteOKJob example_platform
              (example_remoteok_raw ''Backend Engineer'' ''Acme''))) = 0
   \<and> max' (salary (normalizeRemoteOKJob example_platform
              (example_remoteok_raw ''Backend Engineer'' ''Acme''))) = 0
   \<and> skills (normalizeRemoteOKJob example_platform
              (example_remoteok_raw ''Backend Engineer'' ''Acme'')) = []
   \<and> Web3CareerJobSchema example_platform (JObj (example_web3_obj ''Backend Engineer'' ''Acme''))
     = Some (example_web3_raw ''Backend Engineer'' ''Acme'')
   \<and> property (example_web3_obj ''Backend Engineer'' ''Acme'') ''is_remote'' = None
   \<and> property (example_web3_obj ''Backend Engineer'' ''Acme'') ''salary_min_value'' = None
   \<and> property (example_web3_obj ''Backend Engineer'' ''Acme'') ''salary_max_value'' = None
   \<and> property (example_web3_obj ''Backend Engineer'' ''Acme'') ''tags'' = None
   \<and> remote (normalizeWeb3CareerJob example_platform
              (example_web3_raw ''Backend Engineer'' ''Acme'')) = False
   \<and> min' (salary (normalizeWeb3CareerJob example_platform
              (example_web3_raw ''Backend Engineer'' ''Acme''))) = 0
   \<and> max' (salary (normalizeWeb3CareerJob example_platform
              (example_web3_raw ''Backend Engineer'' ''Acme''))) = 0
   \<and> skills (normalizeWeb3CareerJob example_platform
              (example_web3_raw ''Backend Engineer'' ''Acme'')) = []"
proof -
  have p1: "property (example_remoteok_obj ''Backend Engineer'' ''Acme'') ''salary_min'' = None"
    "property (example_remoteok_obj ''Backend Engineer'' ''Acme'') ''salary_max'' = None"
    "property (example_remoteok_obj ''Backend Engineer'' ''Acme'') ''tags'' = None"
    by (simp_all add: example_remoteok_obj_def property_def)
  have p2: "property (example_web3_obj ''Backend Engineer'' ''Acme'') ''is_remote'' = None"
    "property (example_web3_obj ''Backend Engineer'' ''Acme'') ''salary_min_value'' = None"
    "property (example_web3_obj ''Backend Engineer'' ''Acme'') ''salary_max_value'' = None"
    "property (example_web3_obj ''Backend Engineer'' ''Acme'') ''tags'' = None"
    by (simp_all add: example_web3_obj_def property_def)
  show ?thesis
    using absent_fields_default
      [of example_platform "example_remoteok_obj ''Backend Engineer'' ''Acme''"
          "example_remoteok_raw ''Backend Engineer'' ''Acme''"
          "example_web3_raw ''Backend Engineer'' ''Acme''"]
      absent_fields_default
      [of example_platform "example_web3_obj ''Backend Engineer'' ''Acme''"
          "example_remoteok_raw ''Backend Engineer'' ''Acme''"
          "example_web3_raw ''Backend Engineer'' ''Acme''"]
      example_remoteok_parse example_web3_parse p1 p2
    by blast
qed

text \<open>
  C9, amended. Normalization passes the salary numbers through: a RemoteOK job has the
  record's \<open>salary_min\<close> and \<open>salary_max\<close>, a Web3.Career job has \<open>Number(v) || 0\<close> of
  the record's values. So the job's \<open>salary.min\<close> and \<open>salary.max\<close> are at least 0
  whenever the record's numbers are (in the Web3.Career shape: whenever \<open>Number(v)\<close> is
  \<open>NaN\<close> or at least 0, which covers absent values, \<open>null\<close> and strings that are no
  numbers).
\<close>

theorem salary_sign:
  "min' (salary (normalizeRemoteOKJob P r)) = rok_salary_min r
   \<and> max' (salary (normalizeRemoteOKJob P r)) = rok_salary_max r
   \<and> min' (salary (normalizeWeb3CareerJob P w))
       = (case Number_of P (w3_salary_min_value w) of Some n \<Rightarrow> n | None \<Rightarrow> 0)
   \<and> max' (salary (normalizeWeb3CareerJob P w))
       = (case Number_of P (w3_salary_max_value w) of Some n \<Rightarrow> n | None \<Rightarrow> 0)
   \<and> (0 \<le> rok_salary_min r \<and> 0 \<le> rok_salary_max r
        \<longrightarrow> 0 \<le> min' (salary (normalizeRemoteOKJob P r))
            \<and> 0 \<le> max' (salary (normalizeRemoteOKJob P r)))
   \<and> ((\<forall>n. Number_of P (w3_salary_min_value w) = Some n \<longrightarrow> 0 \<le> n)
        \<and> (\<forall>n. Number_of P (w3_salary_max_value w) = Some n \<longrightarrow> 0 \<le> n)
        \<longrightarrow> 0 \<le> min' (salary (normalizeWeb3CareerJob P w))
            \<and> 0 \<le> max' (salary (normalizeWeb3CareerJob P w)))"
  by (auto simp: normalizeRemoteOKJob_def normalizeWeb3CareerJob_def
      normalizeWeb3CareerSalary_def num_or_def Let_def split: option.splits)

text \<open>
  C9, as claimed (every accepted record gives a salary minimum and maximum of at least
  0). Both schemas accept any number: a negative one reaches the job as it is.
\<close>

theorem negative_salary_accepted:
  "RemoteOKJobSchema example_platform
     (JObj (example_remoteok_obj ''Backend Engineer'' ''Acme'' @ [(''salary_min'', JNum (- 5))]))
     = Some ((example_remoteok_raw ''Backend Engineer'' ''Acme'')\<lparr>rok_salary_min := - 5\<rparr>)
   \<and> min' (salary (normalizeRemoteOKJob example_platform
        ((example_remoteok_raw ''Backend Engineer'' ''Acme'')\<lparr>rok_salary_min := - 5\<rparr>))) = - 5
   \<and> \<not> 0 \<le> min' (salary (normalizeRemoteOKJob example_platform
        ((example_remoteok_raw ''Backend Engineer'' ''Acme'')\<lparr>rok_salary_min := - 5\<rparr>)))
   \<and> Web3CareerJobSchema example_platform
     (JObj (example_web3_obj ''Backend Engineer'' ''Acme'' @ [(''salary_max_value'', JNum (- 5))]))
     = Some ((example_web3_raw ''Backend Engineer'' ''Acme'')
              \<lparr>w3_salary_max_value := Value (Inl (- 5))\<rparr>)
   \<and> \<not> 0 \<le> max' (salary (normalizeWeb3CareerJob example_platform
        ((example_web3_raw ''Backend Engineer'' ''Acme'')
              \<lparr>w3_salary_max_value := Value (Inl (- 5))\<rparr>)))
   \<and> Web3CareerJobSchema example_platform
     (JObj (example_web3_obj ''Backend Engineer'' ''Acme'' @ [(''salary_min_value'', JStr ''-5'')]))
     = Some ((example_web3_raw ''Backend Engineer'' ''Acme'')
              \<lparr>w3_salary_min_value := Value (Inr ''-5'')\<rparr>)
   \<and> \<not> 0 \<le> min' (salary (normalizeWeb3CareerJob example_platform
        ((example_web3_raw ''Backend Engineer'' ''Acme'')
              \<lparr>w3_salary_min_value := Value (Inr ''-5'')\<rparr>)))"
  by (simp add: RemoteOKJobSchema_def Web3CareerJobSchema_def
      example_remoteok_obj_def example_remoteok_raw_def example_web3_obj_def example_web3_raw_def
      example_platform_def property_def z_string_def z_number_def z_min_def z_url_def
      z_default_def z_nullish_def z_union_def
      normalizeRemoteOKJob_def normalizeWeb3CareerJob_def normalizeWeb3CareerSalary_def
      Number_of_def num_or_def Let_def)

theorem salary_sign_witness:
  "0 \<le> rok_salary_min ((example_remoteok_raw ''Backend Engineer'' ''Acme'')
           \<lparr>rok_salary_min := 90000, rok_salary_max := 120000\<rparr>)
   \<and> 0 \<le> rok_salary_max ((example_remoteok_raw ''Backend Engineer'' ''Acme'')
           \<lparr>rok_salary_min := 90000, rok_salary_max := 120000\<rparr>)
   \<and> 0 \<le> min' (salary (normalizeRemoteOKJob example_platform
        ((example_remoteok_raw ''Backend Engineer'' ''Acme'')
           \<lparr>rok_salary_min := 90000, rok_salary_max := 120000\<rparr>)))
   \<and> 0 \<le> max' (salary (normalizeRemoteOKJob example_platform
        ((example_remoteok_raw ''Backend Engineer'' ''Acme'')
           \<lparr>rok_salary_min := 90000, rok_salary_max := 120000\<rparr>)))
   \<and> Number_of example_platform
        (w3_salary_min_value ((example_web3_raw ''Backend Engineer'' ''Acme'')
           \<lparr>w3_salary_min_value := Value (Inr ''competitive''),
             w3_salary_max_value := Value (Inl 150000)\<rparr>)) = None
   \<and> Number_of example_platform
        (w3_salary_max_value ((example_web3_raw ''Backend Engineer'' ''Acme'')
           \<lparr>w3_salary_min_value := Value (Inr ''competitive''),
             w3_salary_max_value := Value (Inl 150000)\<rparr>)) = Some 150000
   \<and> 0 \<le> min' (salary (normalizeWeb3CareerJob example_platform
        ((example_web3_raw ''Backend Engineer'' ''Acme'')
           \<lparr>w3_salary_min_value := Value (Inr ''competitive''),
             w3_salary_max_value := Value (Inl 150000)\<rparr>)))
   \<and> 0 \<le> max' (salary (normalizeWeb3CareerJob example_platform
        ((example_web3_raw ''Backend Engineer'' ''Acme'')
           \<lparr>w3_salary_min_value := Value (Inr ''competitive''),
             w3_salary_max_value := Value (Inl 150000)\<rparr>)))"
  using salary_sign
      [of example_platform
          "(example_remoteok_raw ''Backend Engineer'' ''Acme'')
             \<lparr>rok_salary_min := 90000, rok_salary_max := 120000\<rparr>"
          "(example_web3_raw ''Backend Engineer'' ''Acme'')
             \<lparr>w3_salary_min_value := Value (Inr ''competitive''),
               w3_salary_max_value := Value (Inl 150000)\<rparr>"]
  by (simp add: example_remoteok_raw_def example_web3_raw_def example_platform_def Number_of_def)

end
